theory Spec2Isabelle
  imports Main
begin

section \<open>Python string operations used by the updater\<close>

text \<open>
  Python strings are modelled as \<open>string\<close>. The operations below are the ones
  \<^verbatim>\<open>__main__.py\<close> calls: \<^verbatim>\<open>" ".join\<close>, \<^verbatim>\<open>str.strip\<close>, \<^verbatim>\<open>str.split("/")\<close>,
  \<^verbatim>\<open>str.replace(".git", "")\<close> and \<^verbatim>\<open>strftime\<close>.
\<close>

fun join :: "string \<Rightarrow> string list \<Rightarrow> string" where
  "join sep [] = []"
| "join sep [x] = x"
| "join sep (x # y # ys) = x @ sep @ join sep (y # ys)"

definition is_space :: "char \<Rightarrow> bool" where
  \<comment> \<open>\<^verbatim>\<open>str.isspace\<close> on the code points below 256\<close>
  "is_space c = (of_char c \<in> {9, 10, 11, 12, 13, 28, 29, 30, 31, 32, 133, 160 :: nat})"

definition strip :: "string \<Rightarrow> string" where
  "strip s = rev (dropWhile is_space (rev (dropWhile is_space s)))"

fun split_sep :: "char \<Rightarrow> string \<Rightarrow> string list" where
  \<comment> \<open>\<^verbatim>\<open>s.split(c)\<close> for a one-character separator: never the empty list\<close>
  "split_sep c [] = [[]]"
| "split_sep c (x # xs) =
     (if x = c then [] # split_sep c xs
      else (case split_sep c xs of [] \<Rightarrow> [[x]] | y # ys \<Rightarrow> (x # y) # ys))"

fun replace :: "string \<Rightarrow> string \<Rightarrow> string \<Rightarrow> string" where
  \<comment> \<open>\<^verbatim>\<open>s.replace(old, new)\<close> for a non-empty \<open>old\<close>: every non-overlapping
      occurrence, scanning from the left\<close>
  "replace old new [] = []"
| "replace old new (x # xs) =
     (if old \<noteq> [] \<and> take (length old) (x # xs) = old
      then new @ replace old new (drop (length old - 1) xs)
      else x # replace old new xs)"

definition digit_char :: "nat \<Rightarrow> char" where
  "digit_char n = ''0123456789'' ! (n mod 10)"

definition pad2 :: "nat \<Rightarrow> string" where
  "pad2 n = [digit_char (n div 10), digit_char n]"

definition pad4 :: "nat \<Rightarrow> string" where
  "pad4 n = [digit_char (n div 1000), digit_char (n div 100), digit_char (n div 10), digit_char n]"

definition is_digit :: "char \<Rightarrow> bool" where
  \<comment> \<open>\<^verbatim>\<open>\d\<close> of \<^verbatim>\<open>re\<close> on the code points below 256\<close>
  "is_digit c = (c \<in> set ''0123456789'')"

record datetime =
  year :: nat
  month :: nat
  day :: nat
  hour :: nat
  minute :: nat
  second :: nat

definition valid_datetime :: "datetime \<Rightarrow> bool" where
  \<comment> \<open>the range of a \<^verbatim>\<open>datetime\<close> whose year prints with four digits\<close>
  "valid_datetime d =
     (1000 \<le> year d \<and> year d \<le> 9999 \<and> 1 \<le> month d \<and> month d \<le> 12 \<and>
      1 \<le> day d \<and> day d \<le> 31 \<and> hour d < 24 \<and> minute d < 60 \<and> second d < 60)"

definition strftime :: "datetime \<Rightarrow> string" where
  \<comment> \<open>\<^verbatim>\<open>strftime("%Y%m%d%H%M%S")\<close>\<close>
  "strftime d = pad4 (year d) @ pad2 (month d) @ pad2 (day d) @
                pad2 (hour d) @ pad2 (minute d) @ pad2 (second d)"

definition path_join :: "string \<Rightarrow> string \<Rightarrow> string" where
  \<comment> \<open>\<^verbatim>\<open>str(Path(tmpdir) / name)\<close> for a normalised \<open>tmpdir\<close> and a \<open>name\<close>
      without \<^verbatim>\<open>/\<close>: an empty or \<^verbatim>\<open>.\<close> component is dropped\<close>
  "path_join d name = (if name = [] \<or> name = ''.'' then d else d @ ''/'' @ name)"

section \<open>The external world\<close>

text \<open>
  Every effect of the program goes through \<^verbatim>\<open>subprocess.run\<close>, \<^verbatim>\<open>logging\<close>,
  \<^verbatim>\<open>tempfile.TemporaryDirectory\<close> or the clock. The world is an abstract state \<open>'w\<close>;
  an environment says how it answers. The model records what the program did as a
  chronological list of events.
\<close>

datatype level = INFO | WARNING | ERROR

datatype logarg = LStr string | LList "string list" | LNone

datatype event =
    Exec (argv: "string list") (cwd: "string option") (returncode: int)
  | Log level string "logarg list"
  | TmpCreate string
  | TmpRemove string

record 'w env =
  exec :: "string list \<Rightarrow> string option \<Rightarrow> 'w \<Rightarrow> (int \<times> string \<times> string) \<times> 'w"
  getcwd :: string
  mkdtemp :: "'w \<Rightarrow> string \<times> 'w"
  utcnow :: "'w \<Rightarrow> datetime \<times> 'w"

record 'w state =
  world :: 'w
  events :: "event list"

datatype error = CalledProcessError

record completed =
  stdout :: "string option"

definition emit :: "event \<Rightarrow> 'w state \<Rightarrow> 'w state" where
  "emit e s = s\<lparr>events := events s @ [e]\<rparr>"

definition logging :: "level \<Rightarrow> string \<Rightarrow> logarg list \<Rightarrow> 'w state \<Rightarrow> 'w state" where
  "logging l fmt args s = emit (Log l fmt args) s"

definition truthy :: "string option \<Rightarrow> bool" where
  \<comment> \<open>Python truth value of an optional string\<close>
  "truthy x = (case x of None \<Rightarrow> False | Some v \<Rightarrow> v \<noteq> [])"

section \<open>Shell executor and version-control adapter\<close>

definition run_command ::
  "'w env \<Rightarrow> string list \<Rightarrow> bool \<Rightarrow> string option \<Rightarrow> string option \<Rightarrow> bool \<Rightarrow>
   'w state \<Rightarrow> (error + completed) \<times> 'w state" where
  \<comment> \<open>always called with \<^verbatim>\<open>check=True\<close>; without \<^verbatim>\<open>capture_output\<close> both streams
      go to \<^verbatim>\<open>DEVNULL\<close> and are \<^verbatim>\<open>None\<close>\<close>
  "run_command E command capture_output cwd' message warn s =
     (let ((rc, out, err), w) = exec E command cwd' (world s);
          s1 = emit (Exec command cwd' rc) (s\<lparr>world := w\<rparr>)
      in if rc = 0
         then (Inr \<lparr>stdout = (if capture_output then Some out else None)\<rparr>, s1)
         else
           (let e_stderr = (if capture_output then Some err else None);
                txt = (if truthy e_stderr then strip (the e_stderr) else [])
            in if truthy message \<and> warn
               then (Inl CalledProcessError,
                     logging WARNING ''%s: %s'' [LStr (the message), LStr txt] s1)
               else if truthy message \<and> \<not> warn
               then (Inl CalledProcessError,
                     logging ERROR ''%s: %s'' [LStr (the message), LStr txt] s1)
               else (Inl CalledProcessError,
                     logging ERROR ''Command failed: %s\<newline>Error: %s''
                       [LStr (join '' '' command), LStr txt] s1)))"

definition git_command :: "string \<Rightarrow> string list \<Rightarrow> string list" where
  "git_command repo_path args =
     [''git'', ''-c'', ''credential.interactive=false'', ''-C'', repo_path] @ args"

definition run_git ::
  "'w env \<Rightarrow> string list \<Rightarrow> string option \<Rightarrow> bool \<Rightarrow> string option \<Rightarrow> bool \<Rightarrow>
   'w state \<Rightarrow> (error + completed) \<times> 'w state" where
  "run_git E args repo_path capture_output message warn s =
     (let repo = (case repo_path of None \<Rightarrow> getcwd E | Some p \<Rightarrow> p);
          command = git_command repo args;
          s1 = logging INFO ''Running command: %s'' [LStr (join '' '' command)] s
      in run_command E command capture_output None message warn s1)"

definition element_exists :: "'w env \<Rightarrow> string \<Rightarrow> string \<Rightarrow> 'w state \<Rightarrow> bool \<times> 'w state" where
  "element_exists E element path s =
     (let command = [''bst'', ''--no-interactive'', ''show'', ''--deps'', ''none'', ''-f'',
                     ''%{name}'', element]
      in case run_command E command False (Some path)
                (Some (''Did not find element: '' @ element)) True s of
           (Inr r, s1) \<Rightarrow> (True, s1)
         | (Inl e, s1) \<Rightarrow> (False, s1))"

definition is_dirty ::
  "'w env \<Rightarrow> string option \<Rightarrow> string option \<Rightarrow> 'w state \<Rightarrow> bool \<times> 'w state" where
  \<comment> \<open>a status query that fails counts as dirty\<close>
  "is_dirty E repo_path subdir s =
     (let args = [''status'', ''--porcelain''] @
                 (if truthy subdir then [''--'', the subdir] else [])
      in case run_git E args repo_path True (Some ''Failed to check git status'') False s of
           (Inr r, s1) \<Rightarrow> (strip (the (stdout r)) \<noteq> [], s1)
         | (Inl e, s1) \<Rightarrow> (True, s1))"

definition git_add ::
  "'w env \<Rightarrow> string option \<Rightarrow> string list \<Rightarrow> 'w state \<Rightarrow> bool \<times> 'w state" where
  "git_add E repo_path paths s =
     (case run_git E (''add'' # paths) repo_path False
             (Some ''Failed to add files to git'') False s of
        (Inr r, s1) \<Rightarrow> (True, s1)
      | (Inl e, s1) \<Rightarrow> (False, s1))"

definition default_commit_message :: string where
  "default_commit_message = ''(Automated) Update mirrors''"

definition git_commit ::
  "'w env \<Rightarrow> string option \<Rightarrow> string \<Rightarrow> 'w state \<Rightarrow> bool \<times> 'w state" where
  "git_commit E repo_path message s =
     (case run_git E [''commit'', ''-m'', message] repo_path False
             (Some ''Failed to commit changes'') False s of
        (Inr r, s1) \<Rightarrow> (True, s1)
      | (Inl e, s1) \<Rightarrow> (False, s1))"

definition repo_name :: "string \<Rightarrow> string" where
  \<comment> \<open>\<^verbatim>\<open>url.split("/")[-1].replace(".git", "")\<close>\<close>
  "repo_name url = replace ''.git'' [] (last (split_sep CHR ''/'' url))"

definition clone_repo ::
  "'w env \<Rightarrow> string \<Rightarrow> (bool \<times> string option \<Rightarrow> 'w state \<Rightarrow> 'a \<times> 'w state) \<Rightarrow>
   'w state \<Rightarrow> 'a \<times> 'w state" where
  \<comment> \<open>the context manager: \<open>body\<close> is the block under \<^verbatim>\<open>with\<close>, run at the
      \<^verbatim>\<open>yield\<close>; the temporary directory is removed when the block is left\<close>
  "clone_repo E url body s =
     (let (tmpdir, w) = mkdtemp E (world s);
          s1 = emit (TmpCreate tmpdir) (s\<lparr>world := w\<rparr>);
          dest_path = path_join tmpdir (repo_name url)
      in case run_git E [''clone'', url, dest_path] None False
                (Some (''Failed to clone repository: '' @ url)) False s1 of
           (Inr r, s2) \<Rightarrow>
             (let s3 = logging INFO ''Cloned %s to %s'' [LStr url, LStr dest_path] s2;
                  (res, s4) = body (True, Some dest_path) s3
              in (res, emit (TmpRemove tmpdir) s4))
         | (Inl e, s2) \<Rightarrow>
             (let (res, s3) = body (False, None) s2
              in (res, emit (TmpRemove tmpdir) s3)))"

definition checkout_branch ::
  "'w env \<Rightarrow> string \<Rightarrow> string option \<Rightarrow> 'w state \<Rightarrow> bool \<times> 'w state" where
  "checkout_branch E branch repo_path s =
     (case run_git E [''checkout'', branch] repo_path False
             (Some (''Failed to checkout branch: '' @ branch)) False s of
        (Inr r, s1) \<Rightarrow>
          (True, logging INFO ''Checked out %s in repo %s''
                   [LStr branch, (case repo_path of None \<Rightarrow> LNone | Some p \<Rightarrow> LStr p)] s1)
      | (Inl e, s1) \<Rightarrow> (False, s1))"

definition branch_name_of :: "string \<Rightarrow> string \<Rightarrow> string" where
  \<comment> \<open>\<^verbatim>\<open>f"update-mirrors/{base_branch}/{timestamp}"\<close>\<close>
  "branch_name_of base_branch timestamp = ''update-mirrors/'' @ base_branch @ ''/'' @ timestamp"

definition create_branch :: "'w env \<Rightarrow> string \<Rightarrow> 'w state \<Rightarrow> string option \<times> 'w state" where
  "create_branch E base_branch s =
     (let (now, w) = utcnow E (world s);
          timestamp = strftime now;
          branch_name = branch_name_of base_branch timestamp
      in case run_git E [''checkout'', ''-b'', branch_name, base_branch] None False
                (Some (''Failed to create branch '' @ branch_name @ '' from '' @ base_branch))
                False (s\<lparr>world := w\<rparr>) of
           (Inr r, s1) \<Rightarrow>
             (Some branch_name,
              logging INFO ''Created branch %s from %s'' [LStr branch_name, LStr base_branch] s1)
         | (Inl e, s1) \<Rightarrow> (None, s1))"

section \<open>Mirror generator invoker\<close>

definition bst_to_lorry_command ::
  "string list \<Rightarrow> string \<Rightarrow> string \<Rightarrow> string list \<Rightarrow> bool \<Rightarrow> string list" where
  \<comment> \<open>the local \<^verbatim>\<open>command\<close> of \<^verbatim>\<open>run_bst_to_lorry\<close>: the list literal, the
      conditional \<^verbatim>\<open>append\<close>, then the loop of \<^verbatim>\<open>extend\<close>\<close>
  "bst_to_lorry_command elements git_dir raw_files_dir exclude_aliases lorry2 =
     (let command = [''bst-to-lorry''] @ elements @
                    [''--git-directory'', git_dir, ''--raw-files-directory'', raw_files_dir];
          command = (if \<not> lorry2 then command @ [''--refspecs''] else command)
      in foldl (\<lambda>command alias. command @ [''--exclude-alias'', alias]) command exclude_aliases)"

definition lorry2_default :: bool where
  \<comment> \<open>the default of the parameter \<^verbatim>\<open>lorry2\<close> and of the option \<^verbatim>\<open>--lorry2\<close>\<close>
  "lorry2_default = False"

definition exclude_alias_default :: "string list" where
  "exclude_alias_default = [''fdsdk_git'', ''fdsdk_mirror'']"

definition run_bst_to_lorry ::
  "'w env \<Rightarrow> string list \<Rightarrow> string \<Rightarrow> string \<Rightarrow> string list \<Rightarrow> string \<Rightarrow> bool \<Rightarrow>
   'w state \<Rightarrow> bool \<times> 'w state" where
  "run_bst_to_lorry E elements git_dir raw_files_dir exclude_aliases cwd' lorry2 s =
     (let command = bst_to_lorry_command elements git_dir raw_files_dir exclude_aliases lorry2;
          s1 = logging INFO ''Running bst-to-lorry: %s'' [LStr (join '' '' command)] s
      in case run_command E command False (Some cwd') (Some ''bst-to-lorry failed'') False s1 of
           (Inr r, s2) \<Rightarrow> (True, s2)
         | (Inl e, s2) \<Rightarrow> (False, s2))"

section \<open>Mirroring orchestrator and commit gate\<close>

text \<open>
  A Python \<^verbatim>\<open>dict\<close> iterates in insertion order; \<^verbatim>\<open>MirrorConfig\<close> and
  \<^verbatim>\<open>RepoConfig\<close> are association lists in that order.
\<close>

type_synonym repo_config = "(string \<times> string list) list"

type_synonym mirror_config = "(string \<times> repo_config) list"

fun missing_elements ::
  "'w env \<Rightarrow> string list \<Rightarrow> string \<Rightarrow> 'w state \<Rightarrow> string list \<times> 'w state" where
  \<comment> \<open>the comprehension
      \<^verbatim>\<open>[elem for elem in elements if not element_exists(elem, str(clone_dest))]\<close>\<close>
  "missing_elements E [] clone_dest s = ([], s)"
| "missing_elements E (elem # elements) clone_dest s =
     (let (found, s1) = element_exists E elem clone_dest s;
          (rest, s2) = missing_elements E elements clone_dest s1
      in (if \<not> found then elem # rest else rest, s2))"

definition process_branch ::
  "'w env \<Rightarrow> string \<Rightarrow> string \<Rightarrow> string list \<Rightarrow> string \<Rightarrow> string \<Rightarrow> string \<Rightarrow>
   string list \<Rightarrow> bool \<Rightarrow> 'w state \<Rightarrow> bool \<times> 'w state" where
  "process_branch E repo_url branch elements clone_dest git_dir raw_files_dir
                  exclude_aliases lorry2 s =
     (let s0 = logging INFO ''Processing branch: %s of repo %s with elements: %s''
                 [LStr branch, LStr repo_url, LList elements] s;
          (checked_out, s1) = checkout_branch E branch (Some clone_dest) s0
      in if \<not> checked_out then (False, s1)
         else
           (let (missing, s2) = missing_elements E elements clone_dest s1
            in if missing \<noteq> []
               then (False,
                     logging ERROR ''Required elements not found in branch %s of repo %s: %s''
                       [LStr branch, LStr repo_url, LList missing] s2)
               else
                 (let s3 = logging INFO ''All required elements found in branch %s: %s''
                             [LStr branch, LList elements] s2;
                      (generated, s4) = run_bst_to_lorry E elements git_dir raw_files_dir
                                          exclude_aliases clone_dest lorry2 s3
                  in if \<not> generated
                     then (False,
                           logging ERROR ''bst-to-lorry failed for branch %s in repo %s''
                             [LStr branch, LStr repo_url] s4)
                     else (True, s4))))"

fun process_repo_loop ::
  "'w env \<Rightarrow> string \<Rightarrow> repo_config \<Rightarrow> string \<Rightarrow> string \<Rightarrow> string \<Rightarrow> string list \<Rightarrow> bool \<Rightarrow>
   'w state \<Rightarrow> bool \<times> 'w state" where
  \<comment> \<open>\<^verbatim>\<open>for branch, config_elements in repo_config.items()\<close>\<close>
  "process_repo_loop E repo_url [] clone_dest git_dir raw_files_dir exclude_aliases lorry2 s =
     (True, s)"
| "process_repo_loop E repo_url ((branch, config_elements) # rest) clone_dest git_dir
                     raw_files_dir exclude_aliases lorry2 s =
     (let (ok, s1) = process_branch E repo_url branch config_elements clone_dest git_dir
                       raw_files_dir exclude_aliases lorry2 s
      in if \<not> ok then (False, s1)
         else process_repo_loop E repo_url rest clone_dest git_dir raw_files_dir
                exclude_aliases lorry2 s1)"

definition process_repo_body ::
  "'w env \<Rightarrow> string \<Rightarrow> repo_config \<Rightarrow> string \<Rightarrow> string \<Rightarrow> string list \<Rightarrow> string \<Rightarrow> bool \<Rightarrow>
   bool \<times> string option \<Rightarrow> 'w state \<Rightarrow> bool \<times> 'w state" where
  \<comment> \<open>the block under \<^verbatim>\<open>with clone_repo(repo_url) as (clone_status, clone_dest)\<close>;
      \<^verbatim>\<open>checkout_branch(base_branch)\<close> passes no \<^verbatim>\<open>repo_path\<close>\<close>
  "process_repo_body E repo_url repo_config git_dir raw_files_dir exclude_aliases
                     base_branch lorry2 yielded s =
     (case yielded of (clone_status, clone_dest) \<Rightarrow>
        if \<not> clone_status \<or> clone_dest = None then (False, s)
        else
          (let (ok, s1) = checkout_branch E base_branch None s
           in if \<not> ok then (False, s1)
              else process_repo_loop E repo_url repo_config (the clone_dest) git_dir
                     raw_files_dir exclude_aliases lorry2 s1))"

definition process_repo ::
  "'w env \<Rightarrow> string \<Rightarrow> repo_config \<Rightarrow> string \<Rightarrow> string \<Rightarrow> string list \<Rightarrow> string \<Rightarrow> bool \<Rightarrow>
   'w state \<Rightarrow> bool \<times> 'w state" where
  "process_repo E repo_url repo_config git_dir raw_files_dir exclude_aliases base_branch
                lorry2 s =
     clone_repo E repo_url
       (process_repo_body E repo_url repo_config git_dir raw_files_dir exclude_aliases
          base_branch lorry2) s"

definition commit_changes ::
  "'w env \<Rightarrow> string \<Rightarrow> string \<Rightarrow> string \<Rightarrow> 'w state \<Rightarrow> (bool \<times> string option) \<times> 'w state" where
  "commit_changes E git_dir raw_files_dir base_branch s =
     (let (local_br, s1) = create_branch E base_branch s
      in if \<not> truthy local_br then ((False, None), s1)
         else
           (let (added, s2) = git_add E None [git_dir, raw_files_dir] s1
            in if \<not> added then ((False, None), s2)
               else
                 (let (committed, s3) = git_commit E None default_commit_message s2
                  in if committed then ((True, local_br), s3) else ((False, None), s3))))"

fun process_mirroring_loop ::
  "'w env \<Rightarrow> mirror_config \<Rightarrow> string \<Rightarrow> string \<Rightarrow> string list \<Rightarrow> string \<Rightarrow> bool \<Rightarrow>
   'w state \<Rightarrow> bool \<times> 'w state" where
  \<comment> \<open>\<^verbatim>\<open>for repo_url, repo_config in mirror_config.items()\<close>\<close>
  "process_mirroring_loop E [] git_dir raw_files_dir exclude_aliases base_branch lorry2 s =
     (True, s)"
| "process_mirroring_loop E ((repo_url, repo_config) # rest) git_dir raw_files_dir
                          exclude_aliases base_branch lorry2 s =
     (let (ok, s1) = process_repo E repo_url repo_config git_dir raw_files_dir exclude_aliases
                       base_branch lorry2 s
      in if \<not> ok then (False, s1)
         else process_mirroring_loop E rest git_dir raw_files_dir exclude_aliases
                base_branch lorry2 s1)"

definition tracked_dirty ::
  "'w env \<Rightarrow> string \<Rightarrow> string \<Rightarrow> 'w state \<Rightarrow> bool \<times> 'w state" where
  \<comment> \<open>\<^verbatim>\<open>is_dirty(subdir=raw_files_dir) or is_dirty(subdir=git_dir)\<close>: the second
      query runs only when the first says clean\<close>
  "tracked_dirty E git_dir raw_files_dir s =
     (let (d1, s1) = is_dirty E None (Some raw_files_dir) s
      in if d1 then (True, s1) else is_dirty E None (Some git_dir) s1)"

definition process_mirroring ::
  "'w env \<Rightarrow> mirror_config \<Rightarrow> string \<Rightarrow> string \<Rightarrow> string list \<Rightarrow> string \<Rightarrow> bool \<Rightarrow>
   'w state \<Rightarrow> (bool \<times> string option) \<times> 'w state" where
  "process_mirroring E mirror_config git_dir raw_files_dir exclude_aliases base_branch lorry2 s =
     (let (ok, s1) = process_mirroring_loop E mirror_config git_dir raw_files_dir
                       exclude_aliases base_branch lorry2 s
      in if \<not> ok then ((False, None), s1)
         else
           (let (dirty, s2) = tracked_dirty E git_dir raw_files_dir s1
            in if dirty then commit_changes E git_dir raw_files_dir base_branch s2
               else ((True, None), logging WARNING ''Nothing to commit'' [] s2)))"

section \<open>Branch cleanup\<close>

definition branch_regex :: "string \<Rightarrow> bool" where
  \<comment> \<open>\<^verbatim>\<open>re.match(r"^update-mirrors/([^/]+)/(\d+)$", s)\<close>: the two groups cannot
      contain what follows them, so each is the longest run; \<^verbatim>\<open>$\<close> also matches
      before a final newline\<close>
  "branch_regex s =
     (let p = ''update-mirrors/'';
          rest = drop (length p) s;
          seg = takeWhile (\<lambda>c. c \<noteq> CHR ''/'') rest;
          after = dropWhile (\<lambda>c. c \<noteq> CHR ''/'') rest;
          digits = takeWhile is_digit (tl after);
          fin = dropWhile is_digit (tl after)
      in take (length p) s = p \<and> seg \<noteq> [] \<and> after \<noteq> [] \<and> digits \<noteq> [] \<and>
         (fin = [] \<or> fin = [CHR 0x0A]))"

record merge_request =
  mr_state :: string
  source_branch :: string

record project =
  branches :: "string list"
  mergerequests :: "merge_request list"

datatype api_call = DeleteMergedBranches | BranchDelete string

definition branches_list :: "project \<Rightarrow> (string \<Rightarrow> bool) \<Rightarrow> string list" where
  \<comment> \<open>\<^verbatim>\<open>project.branches.list(iterator=True, regex=...)\<close>: the server's answer, the
      branches whose name matches the pattern\<close>
  "branches_list p rx = filter rx (branches p)"

definition mergerequests_list :: "project \<Rightarrow> string \<Rightarrow> merge_request list" where
  \<comment> \<open>\<^verbatim>\<open>project.mergerequests.list(state=..., iterator=True)\<close>\<close>
  "mergerequests_list p st = filter (\<lambda>mr. mr_state mr = st) (mergerequests p)"

definition cleanup_branches :: "project \<Rightarrow> api_call list \<times> event list" where
  \<comment> \<open>the mutating API calls made, in order, and the log; a Python \<^verbatim>\<open>set\<close> is a
      duplicate-free list here, its iteration order is the list's. Exceptions of the
      API client are not handled in this function and are not part of the model.\<close>
  "cleanup_branches p =
     (let branches' = branches_list p branch_regex;
          open_mrs = mergerequests_list p ''opened'';
          branch_names = remdups branches';
          open_mr_branches =
            remdups (map source_branch (filter (\<lambda>mr. branch_regex (source_branch mr)) open_mrs));
          branches_without_open_mrs = filter (\<lambda>b. b \<notin> set open_mr_branches) branch_names
      in (DeleteMergedBranches # map BranchDelete branches_without_open_mrs,
          map (\<lambda>b. Log INFO ''Deleting branch: %s'' [LStr b]) branches_without_open_mrs))"

section \<open>Reading the event list\<close>

definition git_args :: "string list \<Rightarrow> string list option" where
  \<comment> \<open>the arguments after the fixed prefix \<^verbatim>\<open>git -c credential.interactive=false -C <repo>\<close>\<close>
  "git_args a =
     (if 5 \<le> length a \<and> take 4 a = [''git'', ''-c'', ''credential.interactive=false'', ''-C'']
      then Some (drop 5 a) else None)"

definition git_subcommand :: "string \<Rightarrow> string list \<Rightarrow> bool" where
  "git_subcommand name a = (case git_args a of Some (x # xs) \<Rightarrow> x = name | _ \<Rightarrow> False)"

definition is_clone :: "string list \<Rightarrow> bool" where
  "is_clone a = git_subcommand ''clone'' a"

definition is_status :: "string list \<Rightarrow> bool" where
  "is_status a = git_subcommand ''status'' a"

definition is_add :: "string list \<Rightarrow> bool" where
  "is_add a = git_subcommand ''add'' a"

definition is_commit :: "string list \<Rightarrow> bool" where
  "is_commit a = git_subcommand ''commit'' a"

definition is_checkout :: "string list \<Rightarrow> bool" where
  \<comment> \<open>\<^verbatim>\<open>git checkout <branch>\<close>, as \<open>checkout_branch\<close> runs it\<close>
  "is_checkout a = (case git_args a of Some [x, y] \<Rightarrow> x = ''checkout'' | _ \<Rightarrow> False)"

definition is_create_branch :: "string list \<Rightarrow> bool" where
  \<comment> \<open>\<^verbatim>\<open>git checkout -b <name> <base>\<close>, as \<open>create_branch\<close> runs it\<close>
  "is_create_branch a =
     (case git_args a of Some [x, y, n, b] \<Rightarrow> x = ''checkout'' \<and> y = ''-b'' | _ \<Rightarrow> False)"

definition is_element_check :: "string list \<Rightarrow> bool" where
  "is_element_check a =
     (length a = 8 \<and>
      take 7 a = [''bst'', ''--no-interactive'', ''show'', ''--deps'', ''none'', ''-f'', ''%{name}''])"

definition is_generator :: "string list \<Rightarrow> bool" where
  "is_generator a = (take 1 a = [''bst-to-lorry''])"

definition mutates_target :: "string list \<Rightarrow> bool" where
  \<comment> \<open>the commands that create a branch, stage or commit in the target repository\<close>
  "mutates_target a = (is_create_branch a \<or> is_add a \<or> is_commit a)"

definition is_exec :: "event \<Rightarrow> bool" where
  "is_exec e = (case e of Exec a c r \<Rightarrow> True | _ \<Rightarrow> False)"

definition runs :: "(string list \<Rightarrow> bool) \<Rightarrow> event \<Rightarrow> bool" where
  "runs K e = (case e of Exec a c r \<Rightarrow> K a | _ \<Rightarrow> False)"

definition exec_events :: "event list \<Rightarrow> event list" where
  "exec_events evs = filter is_exec evs"

definition count_runs :: "(string list \<Rightarrow> bool) \<Rightarrow> event list \<Rightarrow> nat" where
  "count_runs K evs = length (filter (runs K) evs)"

definition events_since :: "'w state \<Rightarrow> 'w state \<Rightarrow> event list" where
  \<comment> \<open>what was recorded between an earlier state and a later one\<close>
  "events_since s s' = drop (length (events s)) (events s')"

definition exit_code :: "'w env \<Rightarrow> string list \<Rightarrow> string option \<Rightarrow> 'w state \<Rightarrow> int" where
  \<comment> \<open>the exit status the world gives a command in a state\<close>
  "exit_code E a c s = fst (fst (exec E a c (world s)))"

definition repo_of :: "'w env \<Rightarrow> string option \<Rightarrow> string" where
  \<comment> \<open>the directory \<open>run_git\<close> passes to \<^verbatim>\<open>-C\<close>\<close>
  "repo_of E repo_path = (case repo_path of None \<Rightarrow> getcwd E | Some p \<Rightarrow> p)"

definition trace :: "'w state \<Rightarrow> 'w state \<Rightarrow> event list \<Rightarrow> bool" where
  \<comment> \<open>the later state extends the earlier one's events, and \<open>xs\<close> are the commands
      run in between\<close>
  "trace s s' xs = (\<exists>new. events s' = events s @ new \<and> exec_events new = xs)"

definition clock :: "'w env \<Rightarrow> 'w state \<Rightarrow> datetime" where
  \<comment> \<open>what \<^verbatim>\<open>datetime.now(timezone.utc)\<close> reads in a state\<close>
  "clock E s = fst (utcnow E (world s))"

definition after_clock :: "'w env \<Rightarrow> 'w state \<Rightarrow> 'w state" where
  "after_clock E s = s\<lparr>world := snd (utcnow E (world s))\<rparr>"

definition new_branch :: "'w env \<Rightarrow> string \<Rightarrow> 'w state \<Rightarrow> string" where
  \<comment> \<open>the name \<open>create_branch\<close> builds when called in a state\<close>
  "new_branch E base_branch s = branch_name_of base_branch (strftime (clock E s))"

definition create_branch_cmd :: "'w env \<Rightarrow> string \<Rightarrow> 'w state \<Rightarrow> string list" where
  "create_branch_cmd E base_branch s =
     git_command (getcwd E) [''checkout'', ''-b'', new_branch E base_branch s, base_branch]"

definition add_cmd :: "'w env \<Rightarrow> string \<Rightarrow> string \<Rightarrow> string list" where
  "add_cmd E git_dir raw_files_dir = git_command (getcwd E) [''add'', git_dir, raw_files_dir]"

definition commit_cmd :: "'w env \<Rightarrow> string list" where
  "commit_cmd E = git_command (getcwd E) [''commit'', ''-m'', default_commit_message]"

definition element_check_cmd :: "string \<Rightarrow> string list" where
  "element_check_cmd element =
     [''bst'', ''--no-interactive'', ''show'', ''--deps'', ''none'', ''-f'', ''%{name}'', element]"

definition tmpdir_of :: "'w env \<Rightarrow> 'w state \<Rightarrow> string" where
  \<comment> \<open>the temporary directory \<open>clone_repo\<close> gets when entered in a state\<close>
  "tmpdir_of E s = fst (mkdtemp E (world s))"

definition after_mkdtemp :: "'w env \<Rightarrow> 'w state \<Rightarrow> 'w state" where
  "after_mkdtemp E s = s\<lparr>world := snd (mkdtemp E (world s))\<rparr>"

definition clone_dest_of :: "'w env \<Rightarrow> string \<Rightarrow> 'w state \<Rightarrow> string" where
  "clone_dest_of E url s = path_join (tmpdir_of E s) (repo_name url)"

definition clone_cmd :: "'w env \<Rightarrow> string \<Rightarrow> 'w state \<Rightarrow> string list" where
  "clone_cmd E url s = git_command (getcwd E) [''clone'', url, clone_dest_of E url s]"

definition in_clone :: "string \<Rightarrow> event \<Rightarrow> bool" where
  \<comment> \<open>a command run inside a clone: git with \<^verbatim>\<open>-C <clone>\<close>, or a tool whose
      working directory is the clone\<close>
  "in_clone dest e =
     (case e of Exec a c r \<Rightarrow> c = Some dest \<or> (git_args a \<noteq> None \<and> a ! 4 = dest)
      | _ \<Rightarrow> False)"

definition repo_kind :: "string list \<Rightarrow> bool" where
  \<comment> \<open>the commands that processing a repository runs\<close>
  "repo_kind a = (is_clone a \<or> is_checkout a \<or> is_element_check a \<or> is_generator a)"

definition branch_kind :: "string list \<Rightarrow> bool" where
  \<comment> \<open>the commands that processing a branch runs\<close>
  "branch_kind a = (is_checkout a \<or> is_element_check a \<or> is_generator a)"

definition checks_of :: "string \<Rightarrow> string list \<Rightarrow> int list \<Rightarrow> event list" where
  \<comment> \<open>one existence check per element, in order, with the exit codes given\<close>
  "checks_of dest elements rcs =
     map (\<lambda>(e, rc). Exec (element_check_cmd e) (Some dest) rc) (zip elements rcs)"

definition failed_of :: "string list \<Rightarrow> int list \<Rightarrow> string list" where
  \<comment> \<open>the elements whose check exited with a non-zero status\<close>
  "failed_of elements rcs = map fst (filter (\<lambda>(e, rc). rc \<noteq> 0) (zip elements rcs))"

definition status_cmd :: "'w env \<Rightarrow> string \<Rightarrow> string list" where
  \<comment> \<open>the command of \<^verbatim>\<open>is_dirty(subdir=dir)\<close>: git runs in the current directory\<close>
  "status_cmd E dir =
     git_command (getcwd E)
       ([''status'', ''--porcelain''] @ (if dir \<noteq> [] then [''--'', dir] else []))"

definition reported_dirty :: "'w env \<Rightarrow> string \<Rightarrow> 'w \<Rightarrow> bool" where
  \<comment> \<open>what the status query of a directory tells in a world: it exits with a non-zero
      status, or it prints something other than white space\<close>
  "reported_dirty E dir w =
     (case fst (exec E (status_cmd E dir) None w) of (rc, out, err) \<Rightarrow> rc \<noteq> 0 \<or> strip out \<noteq> [])"

definition status_event :: "'w env \<Rightarrow> string \<Rightarrow> 'w \<Rightarrow> event" where
  \<comment> \<open>the status query of a directory, with the exit status the world gives it\<close>
  "status_event E dir w =
     Exec (status_cmd E dir) None (fst (fst (exec E (status_cmd E dir) None w)))"

definition after_status :: "'w env \<Rightarrow> string \<Rightarrow> 'w \<Rightarrow> 'w" where
  \<comment> \<open>the world after the status query of a directory\<close>
  "after_status E dir w = snd (exec E (status_cmd E dir) None w)"

definition work_kind :: "string list \<Rightarrow> bool" where
  \<comment> \<open>every command of a run other than the status queries: clone, checkout, element
      check, generator, branch creation, staging, commit\<close>
  "work_kind a = (repo_kind a \<or> mutates_target a)"

definition succeeded :: "(string list \<Rightarrow> bool) \<Rightarrow> event list \<Rightarrow> bool" where
  \<comment> \<open>every recorded command of the kind exited with status 0\<close>
  "succeeded K evs = list_all (\<lambda>e. case e of Exec a c r \<Rightarrow> K a \<longrightarrow> r = 0 | _ \<Rightarrow> True) evs"

section \<open>A simulated environment\<close>

text \<open>
  A small stand-in for git and the build tools, to run the model on concrete inputs:
  it keeps the target repository's branches, its index and its commits, lets chosen
  commands fail, and answers every status query with a fixed text.
\<close>

record sim =
  sim_head :: string
  sim_branches :: "string list"
  sim_staged :: "string list"
  sim_commits :: "(string \<times> string list) list"

definition sim_exec ::
  "(string list \<Rightarrow> bool) \<Rightarrow> string \<Rightarrow> string list \<Rightarrow> string option \<Rightarrow> sim \<Rightarrow>
   (int \<times> string \<times> string) \<times> sim" where
  "sim_exec fails status_out a c w =
     (if fails a then ((1, [], ''fatal: failed''), w)
      else if is_create_branch a
      then ((0, [], []), w\<lparr>sim_head := a ! 7, sim_branches := a ! 7 # sim_branches w\<rparr>)
      else if is_add a then ((0, [], []), w\<lparr>sim_staged := drop 6 a\<rparr>)
      else if is_commit a
      then ((0, [], []),
            w\<lparr>sim_staged := [], sim_commits := (sim_head w, sim_staged w) # sim_commits w\<rparr>)
      else if is_status a then ((0, status_out, []), w)
      else ((0, [], []), w))"

definition sim_env :: "(string list \<Rightarrow> bool) \<Rightarrow> string \<Rightarrow> sim env" where
  "sim_env fails status_out =
     \<lparr>exec = sim_exec fails status_out,
      getcwd = ''/work/mirroring-config'',
      mkdtemp = (\<lambda>w. (''/tmp/tmpk3v9'', w)),
      utcnow = (\<lambda>w. (\<lparr>year = 2024, month = 3, day = 7, hour = 9, minute = 5, second = 42\<rparr>, w))\<rparr>"

definition no_failure :: "string list \<Rightarrow> bool" where
  \<comment> \<open>no command fails\<close>
  "no_failure a = False"

definition sim_start :: "sim state" where
  "sim_start =
     \<lparr>world = \<lparr>sim_head = ''main'', sim_branches = [''main''], sim_staged = [],
               sim_commits = []\<rparr>,
      events = []\<rparr>"

definition example_config :: mirror_config where
  \<comment> \<open>in JSON: \<^verbatim>\<open>{"https://example/repo.git": {"release": ["elemA"]}}\<close>\<close>
  "example_config = [(''https://example/repo.git'', [(''release'', [''elemA''])])]"

definition example_project :: project where
  "example_project =
     \<lparr>branches = [''main'', ''update-mirrors/main/20240101000000'',
                  ''update-mirrors/main/20240307090542''],
      mergerequests = [\<lparr>mr_state = ''opened'',
                        source_branch = ''update-mirrors/main/20240307090542''\<rparr>,
                       \<lparr>mr_state = ''merged'',
                        source_branch = ''update-mirrors/main/20240101000000''\<rparr>]\<rparr>"

section \<open>Commands recorded by each operation\<close>

lemmas run_defs =
  process_mirroring_def tracked_dirty_def commit_changes_def process_repo_def
  process_repo_body_def clone_repo_def process_branch_def run_bst_to_lorry_def
  bst_to_lorry_command_def create_branch_def branch_name_of_def checkout_branch_def
  git_commit_def git_add_def is_dirty_def element_exists_def run_git_def git_command_def
  run_command_def truthy_def logging_def emit_def repo_name_def path_join_def
  strftime_def pad2_def pad4_def digit_char_def strip_def is_space_def
  default_commit_message_def
  sim_env_def sim_exec_def sim_start_def no_failure_def example_config_def
  git_args_def git_subcommand_def is_clone_def is_status_def is_add_def is_commit_def
  is_checkout_def is_create_branch_def is_element_check_def is_generator_def
  mutates_target_def


lemma foldl_exclude_alias:
  "foldl (\<lambda>command alias. command @ [''--exclude-alias'', alias]) cmd xs =
   cmd @ concat (map (\<lambda>alias. [''--exclude-alias'', alias]) xs)"
  by (induction xs arbitrary: cmd) simp_all

lemma bst_to_lorry_command_shape:
  "bst_to_lorry_command elements g r xs lorry2 =
   ''bst-to-lorry'' # elements @ [''--git-directory'', g, ''--raw-files-directory'', r] @
   (if lorry2 then [] else [''--refspecs'']) @
   concat (map (\<lambda>alias. [''--exclude-alias'', alias]) xs)"
  by (simp add: bst_to_lorry_command_def foldl_exclude_alias)

lemma emit_simps [simp]:
  "events (emit e s) = events s @ [e]" "world (emit e s) = world s"
  by (simp_all add: emit_def)

lemma logging_simps [simp]:
  "events (logging l f a s) = events s @ [Log l f a]" "world (logging l f a s) = world s"
  by (simp_all add: logging_def)

lemma exit_code_logging [simp]: "exit_code E a c (logging l f x s) = exit_code E a c s"
  by (simp add: exit_code_def)

lemma exit_code_emit [simp]: "exit_code E a c (emit e s) = exit_code E a c s"
  by (simp add: exit_code_def)

lemma exec_events_simps [simp]:
  "exec_events [] = []"
  "exec_events (Exec a c r # evs) = Exec a c r # exec_events evs"
  "exec_events (Log l f x # evs) = exec_events evs"
  "exec_events (TmpCreate d # evs) = exec_events evs"
  "exec_events (TmpRemove d # evs) = exec_events evs"
  "exec_events (xs @ ys) = exec_events xs @ exec_events ys"
  by (simp_all add: exec_events_def is_exec_def)

lemma trace_refl [simp]: "trace s s []"
  by (simp add: trace_def)

lemma trace_trans: "trace s s1 xs \<Longrightarrow> trace s1 s2 ys \<Longrightarrow> trace s s2 (xs @ ys)"
  by (auto simp: trace_def)

lemma trace_logging: "trace s s' xs \<Longrightarrow> trace s (logging l f a s') xs"
  by (auto simp: trace_def)

lemma trace_logging_pre: "trace (logging l f a s) s' xs \<Longrightarrow> trace s s' xs"
  by (auto simp: trace_def)

lemma trace_emit_tmp:
  "trace s s' xs \<Longrightarrow> trace s (emit (TmpRemove d) s') xs"
  "trace (emit (TmpCreate d) s) s' xs \<Longrightarrow> trace s s' xs"
  by (auto simp: trace_def)

lemma trace_world_upd: "trace (s\<lparr>world := w\<rparr>) s' xs \<Longrightarrow> trace s s' xs"
  by (simp add: trace_def)

lemma trace_since: "trace s s' xs \<Longrightarrow> exec_events (events_since s s') = xs"
  by (auto simp: trace_def events_since_def)

lemma count_runs_exec_events: "count_runs K (exec_events evs) = count_runs K evs"
proof -
  have "filter (runs K) (filter is_exec evs) = filter (runs K) evs"
    by (induction evs) (auto simp: runs_def is_exec_def split: event.splits)
  then show ?thesis by (simp add: count_runs_def exec_events_def)
qed

lemma trace_count: "trace s s' xs \<Longrightarrow> count_runs K (events_since s s') = count_runs K xs"
  using trace_since [of s s' xs] count_runs_exec_events [of K "events_since s s'"] by simp

lemma run_command_trace:
  assumes "run_command E a cap c m wn s = (r, s')"
  shows "trace s s' [Exec a c (exit_code E a c s)]"
    and "r = (if exit_code E a c s = 0
              then Inr \<lparr>stdout = (if cap then Some (fst (snd (fst (exec E a c (world s))))) else None)\<rparr>
              else Inl CalledProcessError)"
  using assms
  by (auto simp: run_command_def exit_code_def trace_def Let_def split: prod.splits if_splits)

lemma run_git_trace:
  assumes "run_git E args rp cap m wn s = (r, s')"
  shows "trace s s' [Exec (git_command (repo_of E rp) args) None
                        (exit_code E (git_command (repo_of E rp) args) None s)]"
    and "isl r = (exit_code E (git_command (repo_of E rp) args) None s \<noteq> 0)"
proof -
  let ?c = "git_command (repo_of E rp) args"
  let ?s1 = "logging INFO ''Running command: %s'' [LStr (join '' '' ?c)] s"
  have rc: "run_command E ?c cap None m wn ?s1 = (r, s')"
    using assms by (simp add: run_git_def repo_of_def Let_def)
  from run_command_trace(1) [OF rc] show "trace s s' [Exec ?c None (exit_code E ?c None s)]"
    by (simp add: trace_logging_pre)
  from run_command_trace(2) [OF rc] show "isl r = (exit_code E ?c None s \<noteq> 0)"
    by simp
qed



lemma element_exists_trace:
  assumes "element_exists E element path s = (ok, s')"
  shows "trace s s' [Exec [''bst'', ''--no-interactive'', ''show'', ''--deps'', ''none'', ''-f'',
                           ''%{name}'', element] (Some path)
                       (exit_code E [''bst'', ''--no-interactive'', ''show'', ''--deps'', ''none'',
                                     ''-f'', ''%{name}'', element] (Some path) s)]"
    and "ok = (exit_code E [''bst'', ''--no-interactive'', ''show'', ''--deps'', ''none'',
                            ''-f'', ''%{name}'', element] (Some path) s = 0)"
proof -
  let ?c = "[''bst'', ''--no-interactive'', ''show'', ''--deps'', ''none'', ''-f'', ''%{name}'', element]"
  obtain r s1 where rc: "run_command E ?c False (Some path)
      (Some (''Did not find element: '' @ element)) True s = (r, s1)"
    by (cases "run_command E ?c False (Some path)
      (Some (''Did not find element: '' @ element)) True s")
  from assms rc have s': "s' = s1" and ok: "ok = (\<not> isl r)"
    by (auto simp: element_exists_def split: sum.splits)
  from run_command_trace(1) [OF rc] s' show "trace s s' [Exec ?c (Some path) (exit_code E ?c (Some path) s)]"
    by simp
  from run_command_trace(2) [OF rc] ok show "ok = (exit_code E ?c (Some path) s = 0)"
    by (simp split: if_splits)
qed

lemma git_wrapper:
  assumes "run_git E args rp cap m wn s = (r, s1)"
  shows "trace s s1 [Exec (git_command (repo_of E rp) args) None
                        (exit_code E (git_command (repo_of E rp) args) None s)]
         \<and> (\<not> isl r) = (exit_code E (git_command (repo_of E rp) args) None s = 0)"
  using run_git_trace [OF assms] by simp

lemma git_add_trace:
  assumes "git_add E rp paths s = (ok, s')"
  shows "trace s s' [Exec (git_command (repo_of E rp) (''add'' # paths)) None
                        (exit_code E (git_command (repo_of E rp) (''add'' # paths)) None s)]"
    and "ok = (exit_code E (git_command (repo_of E rp) (''add'' # paths)) None s = 0)"
proof -
  obtain r s1 where rg: "run_git E (''add'' # paths) rp False
      (Some ''Failed to add files to git'') False s = (r, s1)"
    by (cases "run_git E (''add'' # paths) rp False (Some ''Failed to add files to git'') False s")
  from assms rg have "s' = s1" "ok = (\<not> isl r)"
    by (auto simp: git_add_def split: sum.splits)
  with git_wrapper [OF rg]
  show "trace s s' [Exec (git_command (repo_of E rp) (''add'' # paths)) None
                        (exit_code E (git_command (repo_of E rp) (''add'' # paths)) None s)]"
    and "ok = (exit_code E (git_command (repo_of E rp) (''add'' # paths)) None s = 0)"
    by simp_all
qed

lemma git_commit_trace:
  assumes "git_commit E rp msg s = (ok, s')"
  shows "trace s s' [Exec (git_command (repo_of E rp) [''commit'', ''-m'', msg]) None
                        (exit_code E (git_command (repo_of E rp) [''commit'', ''-m'', msg]) None s)]"
    and "ok = (exit_code E (git_command (repo_of E rp) [''commit'', ''-m'', msg]) None s = 0)"
proof -
  obtain r s1 where rg: "run_git E [''commit'', ''-m'', msg] rp False
      (Some ''Failed to commit changes'') False s = (r, s1)"
    by (cases "run_git E [''commit'', ''-m'', msg] rp False (Some ''Failed to commit changes'') False s")
  from assms rg have "s' = s1" "ok = (\<not> isl r)"
    by (auto simp: git_commit_def split: sum.splits)
  with git_wrapper [OF rg]
  show "trace s s' [Exec (git_command (repo_of E rp) [''commit'', ''-m'', msg]) None
                        (exit_code E (git_command (repo_of E rp) [''commit'', ''-m'', msg]) None s)]"
    and "ok = (exit_code E (git_command (repo_of E rp) [''commit'', ''-m'', msg]) None s = 0)"
    by simp_all
qed

lemma checkout_branch_trace:
  assumes "checkout_branch E branch rp s = (ok, s')"
  shows "trace s s' [Exec (git_command (repo_of E rp) [''checkout'', branch]) None
                        (exit_code E (git_command (repo_of E rp) [''checkout'', branch]) None s)]"
    and "ok = (exit_code E (git_command (repo_of E rp) [''checkout'', branch]) None s = 0)"
proof -
  obtain r s1 where rg: "run_git E [''checkout'', branch] rp False
      (Some (''Failed to checkout branch: '' @ branch)) False s = (r, s1)"
    by (cases "run_git E [''checkout'', branch] rp False
      (Some (''Failed to checkout branch: '' @ branch)) False s")
  from assms rg have ok: "ok = (\<not> isl r)"
    and s': "s' = s1 \<or> (\<exists>l f a. s' = logging l f a s1)"
    by (auto simp: checkout_branch_def split: sum.splits)
  from git_wrapper [OF rg] s'
  show "trace s s' [Exec (git_command (repo_of E rp) [''checkout'', branch]) None
                        (exit_code E (git_command (repo_of E rp) [''checkout'', branch]) None s)]"
    by (auto intro: trace_logging)
  from git_wrapper [OF rg] ok
  show "ok = (exit_code E (git_command (repo_of E rp) [''checkout'', branch]) None s = 0)"
    by simp
qed

lemma run_bst_to_lorry_trace:
  assumes "run_bst_to_lorry E elements g r xs dir lorry2 s = (ok, s')"
  shows "trace s s' [Exec (bst_to_lorry_command elements g r xs lorry2) (Some dir)
                        (exit_code E (bst_to_lorry_command elements g r xs lorry2) (Some dir) s)]"
    and "ok = (exit_code E (bst_to_lorry_command elements g r xs lorry2) (Some dir) s = 0)"
proof -
  let ?c = "bst_to_lorry_command elements g r xs lorry2"
  let ?s1 = "logging INFO ''Running bst-to-lorry: %s'' [LStr (join '' '' ?c)] s"
  obtain res s2 where rc: "run_command E ?c False (Some dir) (Some ''bst-to-lorry failed'') False ?s1 = (res, s2)"
    by (cases "run_command E ?c False (Some dir) (Some ''bst-to-lorry failed'') False ?s1")
  from assms rc have s': "s' = s2" and ok: "ok = (\<not> isl res)"
    by (auto simp: run_bst_to_lorry_def Let_def split: sum.splits)
  from run_command_trace(1) [OF rc] s'
  show "trace s s' [Exec ?c (Some dir) (exit_code E ?c (Some dir) s)]"
    by (simp add: trace_logging_pre)
  from run_command_trace(2) [OF rc] ok
  show "ok = (exit_code E ?c (Some dir) s = 0)"
    by (simp split: if_splits)
qed

lemma create_branch_trace:
  assumes "create_branch E base s = (br, s')"
  shows "trace s s' [Exec (create_branch_cmd E base s) None
                        (exit_code E (create_branch_cmd E base s) None (after_clock E s))]"
    and "br = (if exit_code E (create_branch_cmd E base s) None (after_clock E s) = 0
               then Some (new_branch E base s) else None)"
proof -
  let ?n = "new_branch E base s"
  let ?args = "[''checkout'', ''-b'', ?n, base]"
  obtain r s1 where rg: "run_git E ?args None False
      (Some (''Failed to create branch '' @ ?n @ '' from '' @ base)) False (after_clock E s) = (r, s1)"
    by (cases "run_git E ?args None False
      (Some (''Failed to create branch '' @ ?n @ '' from '' @ base)) False (after_clock E s)")
  from assms rg have br: "br = (if isl r then None else Some ?n)"
    and s': "s' = s1 \<or> (\<exists>l f a. s' = logging l f a s1)"
    by (auto simp: create_branch_def new_branch_def clock_def after_clock_def Let_def
             split: sum.splits prod.splits)
  have c: "git_command (repo_of E None) ?args = create_branch_cmd E base s"
    by (simp add: create_branch_cmd_def repo_of_def)
  have "trace (after_clock E s) s' [Exec (create_branch_cmd E base s) None
                        (exit_code E (create_branch_cmd E base s) None (after_clock E s))]"
    using git_wrapper [OF rg] s' c by (auto intro: trace_logging)
  then show "trace s s' [Exec (create_branch_cmd E base s) None
                        (exit_code E (create_branch_cmd E base s) None (after_clock E s))]"
    unfolding after_clock_def by (rule trace_world_upd)
  from git_wrapper [OF rg] br c
  show "br = (if exit_code E (create_branch_cmd E base s) None (after_clock E s) = 0
               then Some ?n else None)"
    by auto
qed

lemma commit_changes_cases:
  assumes cc: "commit_changes E g r base s = (res, s')"
  shows "\<exists>r1 r2 r3.
           (r1 \<noteq> 0 \<and> res = (False, None) \<and>
            trace s s' [Exec (create_branch_cmd E base s) None r1])
         \<or> (r2 \<noteq> 0 \<and> res = (False, None) \<and>
            trace s s' [Exec (create_branch_cmd E base s) None 0, Exec (add_cmd E g r) None r2])
         \<or> (r3 \<noteq> 0 \<and> res = (False, None) \<and>
            trace s s' [Exec (create_branch_cmd E base s) None 0, Exec (add_cmd E g r) None 0,
                        Exec (commit_cmd E) None r3])
         \<or> (res = (True, Some (new_branch E base s)) \<and>
            trace s s' [Exec (create_branch_cmd E base s) None 0, Exec (add_cmd E g r) None 0,
                        Exec (commit_cmd E) None 0])"
proof -
  obtain br s1 where cb: "create_branch E base s = (br, s1)"
    by (cases "create_branch E base s")
  let ?r1 = "exit_code E (create_branch_cmd E base s) None (after_clock E s)"
  note t1 = create_branch_trace(1) [OF cb] and b1 = create_branch_trace(2) [OF cb]
  show ?thesis
  proof (cases "?r1 = 0")
    case False
    with b1 have "br = None" by simp
    with cc cb have "res = (False, None)" "s' = s1"
      by (simp_all add: commit_changes_def truthy_def)
    with t1 False show ?thesis by blast
  next
    case r1: True
    with b1 have br: "br = Some (new_branch E base s)" by simp
    have tr: "truthy br"
      by (simp add: br truthy_def new_branch_def branch_name_of_def)
    obtain added s2 where ga: "git_add E None [g, r] s1 = (added, s2)"
      by (cases "git_add E None [g, r] s1")
    let ?r2 = "exit_code E (add_cmd E g r) None s1"
    have t2: "trace s1 s2 [Exec (add_cmd E g r) None ?r2]" and a2: "added = (?r2 = 0)"
      using git_add_trace [OF ga] by (simp_all add: add_cmd_def repo_of_def)
    from trace_trans [OF t1 t2] r1
    have t12: "trace s s2 [Exec (create_branch_cmd E base s) None 0, Exec (add_cmd E g r) None ?r2]"
      by simp
    show ?thesis
    proof (cases "?r2 = 0")
      case False
      with a2 cc cb ga tr have "res = (False, None)" "s' = s2"
        by (simp_all add: commit_changes_def)
      with t12 False show ?thesis by blast
    next
      case r2: True
      obtain committed s3 where gc: "git_commit E None default_commit_message s2 = (committed, s3)"
        by (cases "git_commit E None default_commit_message s2")
      let ?r3 = "exit_code E (commit_cmd E) None s2"
      have t3: "trace s2 s3 [Exec (commit_cmd E) None ?r3]" and a3: "committed = (?r3 = 0)"
        using git_commit_trace [OF gc] by (simp_all add: commit_cmd_def repo_of_def)
      from trace_trans [OF t12 t3] r2
      have t123: "trace s s3 [Exec (create_branch_cmd E base s) None 0, Exec (add_cmd E g r) None 0,
                              Exec (commit_cmd E) None ?r3]"
        by simp
      from a2 r2 cc cb ga gc tr
      have res: "res = (if committed then (True, br) else (False, None))" and s': "s' = s3"
        by (auto simp: commit_changes_def split: if_splits)
      show ?thesis
      proof (cases "?r3 = 0")
        case True
        with res a3 br t123 s' show ?thesis by simp
      next
        case False
        with res a3 have "res = (False, None)" by simp
        with t123 s' False show ?thesis by blast
      qed
    qed
  qed
qed


lemma git_args_git_command [simp]: "git_args (git_command repo args) = Some args"
  by (simp add: git_args_def git_command_def)

lemma git_args_element_check_cmd [simp]: "git_args (element_check_cmd e) = None"
  by (simp add: git_args_def element_check_cmd_def)

lemma git_args_bst_to_lorry [simp]: "git_args (bst_to_lorry_command els g r xs l) = None"
  by (simp add: git_args_def bst_to_lorry_command_shape)

lemma git_command_nth4 [simp]: "git_command repo args ! 4 = repo"
  by (simp add: git_command_def)

lemma kind_checkout [simp]: "is_checkout (git_command repo [''checkout'', b])"
  by (simp add: is_checkout_def)

lemma kind_clone [simp]: "is_clone (git_command repo (''clone'' # args))"
  by (simp add: is_clone_def git_subcommand_def)

lemma kind_element_check [simp]: "is_element_check (element_check_cmd e)"
  by (simp add: is_element_check_def element_check_cmd_def)

lemma kind_generator [simp]: "is_generator (bst_to_lorry_command els g r xs l)"
  by (simp add: is_generator_def bst_to_lorry_command_shape)

lemma kind_create [simp]: "is_create_branch (create_branch_cmd E base s)"
  by (simp add: is_create_branch_def create_branch_cmd_def)

lemma kind_add [simp]: "is_add (add_cmd E g r)"
  by (simp add: is_add_def add_cmd_def git_subcommand_def)

lemma kind_commit [simp]: "is_commit (commit_cmd E)"
  by (simp add: is_commit_def commit_cmd_def git_subcommand_def)

lemma not_generator_git [simp]: "\<not> is_generator (git_command repo args)"
  by (simp add: is_generator_def git_command_def)

lemma not_generator_check [simp]: "\<not> is_generator (element_check_cmd e)"
  by (simp add: is_generator_def element_check_cmd_def)

lemma not_git_head: "take 1 a = [x] \<Longrightarrow> x \<noteq> ''git'' \<Longrightarrow> git_args a = None"
  by (cases a) (auto simp: git_args_def)

lemma not_git_element_check: "is_element_check a \<Longrightarrow> git_args a = None"
proof -
  assume "is_element_check a"
  then have "take 7 a = [''bst'', ''--no-interactive'', ''show'', ''--deps'', ''none'', ''-f'', ''%{name}'']"
    by (simp add: is_element_check_def)
  then have "take 1 (take 7 a) = [''bst'']" by simp
  then have "take 1 a = [''bst'']" by simp
  then show ?thesis by (rule not_git_head) simp
qed

lemma not_git_generator: "is_generator a \<Longrightarrow> git_args a = None"
  by (rule not_git_head [of a "''bst-to-lorry''"]) (simp_all add: is_generator_def)

lemma branch_kind_not_clone: "branch_kind a \<Longrightarrow> \<not> is_clone a"
  unfolding branch_kind_def
  by (auto simp: is_clone_def git_subcommand_def is_checkout_def
           dest: not_git_element_check not_git_generator split: option.splits list.splits)

lemma branch_kind_repo_kind: "branch_kind a \<Longrightarrow> repo_kind a"
  by (auto simp: branch_kind_def repo_kind_def)

lemma repo_kind_not_mutates: "repo_kind a \<Longrightarrow> \<not> mutates_target a"
  unfolding repo_kind_def mutates_target_def
  by (auto simp: is_clone_def is_add_def is_commit_def is_create_branch_def git_subcommand_def
                 is_checkout_def
           dest: not_git_element_check not_git_generator split: option.splits list.splits)

lemma status_not_mutates: "is_status a \<Longrightarrow> \<not> mutates_target a"
  unfolding mutates_target_def
  by (auto simp: is_status_def is_add_def is_commit_def is_create_branch_def git_subcommand_def
           split: option.splits list.splits)

lemma status_not_repo_kind: "is_status a \<Longrightarrow> \<not> repo_kind a"
  unfolding repo_kind_def
  by (auto simp: is_status_def is_clone_def is_checkout_def git_subcommand_def
           dest: not_git_element_check not_git_generator split: option.splits list.splits)

lemma mutates_not_repo_kind: "mutates_target a \<Longrightarrow> \<not> repo_kind a"
  using repo_kind_not_mutates by blast

lemma runs_simps [simp]:
  "runs K (Exec a c r) = K a" "\<not> runs K (Log l f x)" "\<not> runs K (TmpCreate d)" "\<not> runs K (TmpRemove d)"
  by (simp_all add: runs_def)

lemma count_runs_simps [simp]:
  "count_runs K [] = 0"
  "count_runs K (e # evs) = (if runs K e then 1 else 0) + count_runs K evs"
  "count_runs K (xs @ ys) = count_runs K xs + count_runs K ys"
  by (simp_all add: count_runs_def)

lemma count_runs_none: "(\<forall>e \<in> set xs. \<not> runs K e) \<Longrightarrow> count_runs K xs = 0"
  by (induction xs) auto

lemma in_clone_simps [simp]:
  "in_clone dest (Exec a (Some dest) r)"
  "in_clone dest (Exec (git_command dest args) c r)"
  by (simp_all add: in_clone_def)

lemma missing_elements_trace:
  "missing_elements E elements dest s = (missing, s') \<Longrightarrow>
   \<exists>rcs. length rcs = length elements \<and> trace s s' (checks_of dest elements rcs) \<and>
         missing = failed_of elements rcs"
proof (induction elements arbitrary: s missing s')
  case Nil
  then show ?case by (simp add: checks_of_def failed_of_def)
next
  case (Cons elem elements)
  obtain found s1 where ee: "element_exists E elem dest s = (found, s1)"
    by (cases "element_exists E elem dest s")
  obtain rest s2 where me: "missing_elements E elements dest s1 = (rest, s2)"
    by (cases "missing_elements E elements dest s1")
  let ?rc = "exit_code E (element_check_cmd elem) (Some dest) s"
  have t1: "trace s s1 [Exec (element_check_cmd elem) (Some dest) ?rc]"
    and f: "found = (?rc = 0)"
    using element_exists_trace [OF ee] by (simp_all add: element_check_cmd_def)
  from Cons.IH [OF me] obtain rcs where
    len: "length rcs = length elements" and t2: "trace s1 s2 (checks_of dest elements rcs)"
    and r: "rest = failed_of elements rcs"
    by blast
  from Cons.prems ee me have m: "missing = (if \<not> found then elem # rest else rest)" and s': "s' = s2"
    by (simp_all add: Let_def)
  have "trace s s' (checks_of dest (elem # elements) (?rc # rcs))"
    using trace_trans [OF t1 t2] s' by (simp add: checks_of_def)
  moreover have "missing = failed_of (elem # elements) (?rc # rcs)"
    using m r f by (simp add: failed_of_def)
  ultimately show ?case using len
    by (intro exI [of _ "?rc # rcs"]) simp
qed

lemma checks_of_no_generator [simp]: "count_runs is_generator (checks_of dest elements rcs) = 0"
  by (rule count_runs_none) (auto simp: checks_of_def)


lemma process_branch_cases:
  assumes pb: "process_branch E url branch elements dest g r xs lorry2 s = (ok, s')"
  shows "\<exists>rcs rg.
           (exit_code E (git_command dest [''checkout'', branch]) None s \<noteq> 0 \<and> \<not> ok \<and>
            trace s s' [Exec (git_command dest [''checkout'', branch]) None
                          (exit_code E (git_command dest [''checkout'', branch]) None s)])
         \<or> (exit_code E (git_command dest [''checkout'', branch]) None s = 0 \<and>
            length rcs = length elements \<and> failed_of elements rcs \<noteq> [] \<and> \<not> ok \<and>
            trace s s' (Exec (git_command dest [''checkout'', branch]) None 0 #
                        checks_of dest elements rcs) \<and>
            last (events s') =
              Log ERROR ''Required elements not found in branch %s of repo %s: %s''
                [LStr branch, LStr url, LList (failed_of elements rcs)])
         \<or> (exit_code E (git_command dest [''checkout'', branch]) None s = 0 \<and>
            length rcs = length elements \<and> failed_of elements rcs = [] \<and> ok = (rg = 0) \<and>
            trace s s' (Exec (git_command dest [''checkout'', branch]) None 0 #
                        checks_of dest elements rcs @
                        [Exec (bst_to_lorry_command elements g r xs lorry2) (Some dest) rg]))"
proof -
  let ?s0 = "logging INFO ''Processing branch: %s of repo %s with elements: %s''
               [LStr branch, LStr url, LList elements] s"
  let ?co = "git_command dest [''checkout'', branch]"
  let ?r0 = "exit_code E ?co None s"
  obtain c s1 where cb: "checkout_branch E branch (Some dest) ?s0 = (c, s1)"
    by (cases "checkout_branch E branch (Some dest) ?s0")
  have t0: "trace s s1 [Exec ?co None ?r0]" and c: "c = (?r0 = 0)"
    using checkout_branch_trace [OF cb] by (simp_all add: repo_of_def trace_logging_pre)
  show ?thesis
  proof (cases "?r0 = 0")
    case False
    with c pb cb have "\<not> ok" "s' = s1"
      by (simp_all add: process_branch_def Let_def)
    with t0 False show ?thesis by blast
  next
    case r0: True
    obtain missing s2 where me: "missing_elements E elements dest s1 = (missing, s2)"
      by (cases "missing_elements E elements dest s1")
    from missing_elements_trace [OF me] obtain rcs where
      len: "length rcs = length elements" and t1: "trace s1 s2 (checks_of dest elements rcs)"
      and m: "missing = failed_of elements rcs"
      by blast
    from trace_trans [OF t0 t1] r0
    have t01: "trace s s2 (Exec ?co None 0 # checks_of dest elements rcs)" by simp
    show ?thesis
    proof (cases "missing = []")
      case False
      let ?lg = "Log ERROR ''Required elements not found in branch %s of repo %s: %s''
                   [LStr branch, LStr url, LList missing]"
      from False c r0 pb cb me
      have ok: "\<not> ok"
        and s': "s' = logging ERROR ''Required elements not found in branch %s of repo %s: %s''
                        [LStr branch, LStr url, LList missing] s2"
        by (simp_all add: process_branch_def Let_def)
      from s' have "last (events s') = ?lg" by simp
      moreover from t01 s' have "trace s s' (Exec ?co None 0 # checks_of dest elements rcs)"
        by (simp add: trace_logging)
      ultimately show ?thesis using False m len ok r0 by blast
    next
      case True
      let ?s3 = "logging INFO ''All required elements found in branch %s: %s''
                   [LStr branch, LList elements] s2"
      obtain gen s4 where rb: "run_bst_to_lorry E elements g r xs dest lorry2 ?s3 = (gen, s4)"
        by (cases "run_bst_to_lorry E elements g r xs dest lorry2 ?s3")
      let ?gc = "bst_to_lorry_command elements g r xs lorry2"
      let ?rg = "exit_code E ?gc (Some dest) s2"
      have t2: "trace s2 s4 [Exec ?gc (Some dest) ?rg]" and gen: "gen = (?rg = 0)"
        using run_bst_to_lorry_trace [OF rb] by (simp_all add: trace_logging_pre)
      from True c r0 pb cb me rb
      have ok: "ok = gen" and s': "s' = s4 \<or> (\<exists>l f a. s' = logging l f a s4)"
        by (auto simp: process_branch_def Let_def split: if_splits)
      from trace_trans [OF t01 t2] s'
      have "trace s s' (Exec ?co None 0 # checks_of dest elements rcs @ [Exec ?gc (Some dest) ?rg])"
        by (auto intro: trace_logging)
      with True m len ok gen r0 show ?thesis
        by (intro exI [of _ rcs] exI [of _ ?rg] disjI2) simp
    qed
  qed
qed

lemma process_branch_kinds:
  assumes pb: "process_branch E url branch elements dest g r xs lorry2 s = (ok, s')"
  shows "\<exists>tr. trace s s' tr \<and> (\<forall>e \<in> set tr. in_clone dest e \<and> runs branch_kind e)"
proof -
  from process_branch_cases [OF pb] obtain rcs rg where
     "trace s s' [Exec (git_command dest [''checkout'', branch]) None
                          (exit_code E (git_command dest [''checkout'', branch]) None s)]
      \<or> trace s s' (Exec (git_command dest [''checkout'', branch]) None 0 #
                        checks_of dest elements rcs)
      \<or> trace s s' (Exec (git_command dest [''checkout'', branch]) None 0 #
                        checks_of dest elements rcs @
                        [Exec (bst_to_lorry_command elements g r xs lorry2) (Some dest) rg])"
    by blast
  moreover have k: "\<forall>e \<in> set (checks_of dest elements rcs). in_clone dest e \<and> runs branch_kind e"
    by (auto simp: checks_of_def branch_kind_def)
  moreover have "in_clone dest (Exec (git_command dest [''checkout'', branch]) None x)
      \<and> runs branch_kind (Exec (git_command dest [''checkout'', branch]) None x)" for x
    by (simp add: branch_kind_def)
  moreover have "in_clone dest (Exec (bst_to_lorry_command elements g r xs lorry2) (Some dest) rg)
      \<and> runs branch_kind (Exec (bst_to_lorry_command elements g r xs lorry2) (Some dest) rg)"
    by (simp add: branch_kind_def)
  ultimately show ?thesis
    by (elim disjE) (rule exI, rule conjI, assumption, simp)+
qed

lemma process_repo_loop_kinds:
  "process_repo_loop E url rc dest g r xs lorry2 s = (ok, s') \<Longrightarrow>
   \<exists>tr. trace s s' tr \<and> (\<forall>e \<in> set tr. in_clone dest e \<and> runs branch_kind e)"
proof (induction rc arbitrary: s)
  case Nil
  then have "s' = s" by simp
  then show ?case by (intro exI [of _ "[]"]) simp
next
  case (Cons bc rc)
  obtain branch els where bc: "bc = (branch, els)" by (cases bc)
  obtain ok1 s1 where pb: "process_branch E url branch els dest g r xs lorry2 s = (ok1, s1)"
    by (cases "process_branch E url branch els dest g r xs lorry2 s")
  from process_branch_kinds [OF pb] obtain tr1 where
    t1: "trace s s1 tr1" and k1: "\<forall>e \<in> set tr1. in_clone dest e \<and> runs branch_kind e"
    by blast
  show ?case
  proof (cases ok1)
    case False
    with Cons.prems bc pb have "s' = s1" by simp
    with t1 k1 show ?thesis by blast
  next
    case True
    with Cons.prems bc pb have "process_repo_loop E url rc dest g r xs lorry2 s1 = (ok, s')"
      by simp
    from Cons.IH [OF this] obtain tr2 where
      t2: "trace s1 s' tr2" and k2: "\<forall>e \<in> set tr2. in_clone dest e \<and> runs branch_kind e"
      by blast
    from trace_trans [OF t1 t2] k1 k2 show ?thesis
      by (intro exI [of _ "tr1 @ tr2"]) auto
  qed
qed

lemma process_repo_cases:
  assumes pr: "process_repo E url rc g r xs base lorry2 s = (ok, s')"
  shows "(exit_code E (clone_cmd E url s) None (after_mkdtemp E s) \<noteq> 0 \<and> \<not> ok \<and>
          trace s s' [Exec (clone_cmd E url s) None
                        (exit_code E (clone_cmd E url s) None (after_mkdtemp E s))])
       \<or> (exit_code E (clone_cmd E url s) None (after_mkdtemp E s) = 0 \<and>
          (\<exists>r2 rest.
             trace s s' (Exec (clone_cmd E url s) None 0 #
                         Exec (git_command (getcwd E) [''checkout'', base]) None r2 # rest) \<and>
             (r2 \<noteq> 0 \<longrightarrow> rest = [] \<and> \<not> ok) \<and>
             (\<forall>e \<in> set rest. in_clone (clone_dest_of E url s) e \<and> runs branch_kind e)))"
proof -
  let ?tmp = "tmpdir_of E s"
  let ?s1 = "emit (TmpCreate ?tmp) (after_mkdtemp E s)"
  let ?dest = "clone_dest_of E url s"
  let ?cc = "clone_cmd E url s"
  let ?r1 = "exit_code E ?cc None (after_mkdtemp E s)"
  let ?body = "process_repo_body E url rc g r xs base lorry2"
  obtain res s2 where rg: "run_git E [''clone'', url, ?dest] None False
      (Some (''Failed to clone repository: '' @ url)) False ?s1 = (res, s2)"
    by (cases "run_git E [''clone'', url, ?dest] None False
      (Some (''Failed to clone repository: '' @ url)) False ?s1")
  have "trace ?s1 s2 [Exec ?cc None ?r1]" and isl: "(\<not> isl res) = (?r1 = 0)"
    using git_wrapper [OF rg] by (simp_all add: clone_cmd_def repo_of_def)
  then have "trace (after_mkdtemp E s) s2 [Exec ?cc None ?r1]"
    by (simp add: trace_emit_tmp(2))
  then have t1: "trace s s2 [Exec ?cc None ?r1]"
    unfolding after_mkdtemp_def by (rule trace_world_upd)
  show ?thesis
  proof (cases "?r1 = 0")
    case False
    with isl obtain e where res: "res = Inl e" by (cases res) auto
    from pr rg res have "\<not> ok" and s': "s' = emit (TmpRemove ?tmp) s2"
      by (auto simp: process_repo_def clone_repo_def process_repo_body_def Let_def
                     tmpdir_of_def after_mkdtemp_def clone_dest_of_def
               split: prod.splits)
    moreover from t1 s' have "trace s s' [Exec ?cc None ?r1]"
      by (simp add: trace_emit_tmp(1))
    ultimately show ?thesis using False by blast
  next
    case r1: True
    with isl obtain c where res: "res = Inr c" by (cases res) auto
    let ?s3 = "logging INFO ''Cloned %s to %s'' [LStr url, LStr ?dest] s2"
    obtain ok' s4 where body: "?body (True, Some ?dest) ?s3 = (ok', s4)"
      by (cases "?body (True, Some ?dest) ?s3")
    from pr rg res body have ok: "ok = ok'" and s': "s' = emit (TmpRemove ?tmp) s4"
      by (auto simp: process_repo_def clone_repo_def Let_def
                     tmpdir_of_def after_mkdtemp_def clone_dest_of_def
               split: prod.splits)
    obtain c0 s5 where cb: "checkout_branch E base None ?s3 = (c0, s5)"
      by (cases "checkout_branch E base None ?s3")
    let ?co = "git_command (getcwd E) [''checkout'', base]"
    let ?r2 = "exit_code E ?co None s2"
    have t2: "trace s2 s5 [Exec ?co None ?r2]" and c0: "c0 = (?r2 = 0)"
      using checkout_branch_trace [OF cb] by (simp_all add: repo_of_def trace_logging_pre)
    from trace_trans [OF t1 t2] r1
    have t12: "trace s s5 [Exec ?cc None 0, Exec ?co None ?r2]" by simp
    show ?thesis
    proof (cases "?r2 = 0")
      case False
      with c0 body cb have "\<not> ok'" "s4 = s5"
        by (simp_all add: process_repo_body_def Let_def)
      with ok s' t12 have "\<not> ok" "trace s s' (Exec ?cc None 0 # Exec ?co None ?r2 # [])"
        by (simp_all add: trace_emit_tmp(1))
      with r1 show ?thesis by (intro disjI2 conjI exI [of _ ?r2] exI [of _ "[]"]) simp_all
    next
      case True
      with c0 body cb have "process_repo_loop E url rc ?dest g r xs lorry2 s5 = (ok', s4)"
        by (simp add: process_repo_body_def Let_def)
      from process_repo_loop_kinds [OF this] obtain rest where
        t3: "trace s5 s4 rest" and k: "\<forall>e \<in> set rest. in_clone ?dest e \<and> runs branch_kind e"
        by blast
      from trace_trans [OF t12 t3] s'
      have "trace s s' (Exec ?cc None 0 # Exec ?co None ?r2 # rest)"
        by (simp add: trace_emit_tmp(1))
      with r1 k True show ?thesis
        by (intro disjI2 conjI exI [of _ ?r2] exI [of _ rest]) simp_all
    qed
  qed
qed

lemma process_repo_kinds:
  assumes pr: "process_repo E url rc g r xs base lorry2 s = (ok, s')"
  shows "\<exists>tr. trace s s' tr \<and> (\<forall>e \<in> set tr. runs repo_kind e) \<and> count_runs is_clone tr = 1"
proof -
  have cl: "is_clone (clone_cmd E url s)" by (simp add: clone_cmd_def)
  have nc: "\<not> is_clone (git_command (getcwd E) [''checkout'', base])"
    by (rule branch_kind_not_clone) (simp add: branch_kind_def)
  from process_repo_cases [OF pr] consider
    (fail) r1 where "trace s s' [Exec (clone_cmd E url s) None r1]"
  | (cloned) r2 rest where
      "trace s s' (Exec (clone_cmd E url s) None 0 #
                   Exec (git_command (getcwd E) [''checkout'', base]) None r2 # rest)"
      "\<forall>e \<in> set rest. in_clone (clone_dest_of E url s) e \<and> runs branch_kind e"
    by blast
  then show ?thesis
  proof cases
    case fail
    then show ?thesis using cl
      by (intro exI [of _ "[Exec (clone_cmd E url s) None r1]"]) (simp add: repo_kind_def)
  next
    case cloned
    have k: "\<forall>e \<in> set rest. runs repo_kind e"
    proof
      fix e assume "e \<in> set rest"
      with cloned(2) have "runs branch_kind e" by blast
      then show "runs repo_kind e"
        by (cases e) (auto dest: branch_kind_repo_kind)
    qed
    have "\<forall>e \<in> set rest. \<not> runs is_clone e"
    proof
      fix e assume "e \<in> set rest"
      with cloned(2) have "runs branch_kind e" by blast
      then show "\<not> runs is_clone e"
        by (cases e) (auto dest: branch_kind_not_clone)
    qed
    then have "count_runs is_clone rest = 0" by (rule count_runs_none)
    with cloned(1) k cl nc show ?thesis
      by (intro exI [of _ "Exec (clone_cmd E url s) None 0 #
                   Exec (git_command (getcwd E) [''checkout'', base]) None r2 # rest"])
         (simp add: repo_kind_def)
  qed
qed

lemma process_mirroring_loop_kinds:
  "process_mirroring_loop E cfg g r xs base lorry2 s = (ok, s') \<Longrightarrow>
   \<exists>tr. trace s s' tr \<and> (\<forall>e \<in> set tr. runs repo_kind e) \<and>
        (ok \<longrightarrow> count_runs is_clone tr = length cfg)"
proof (induction cfg arbitrary: s)
  case Nil
  then have "s' = s" by simp
  then show ?case by (intro exI [of _ "[]"]) simp
next
  case (Cons uc cfg)
  obtain url rc where uc: "uc = (url, rc)" by (cases uc)
  obtain ok1 s1 where pr: "process_repo E url rc g r xs base lorry2 s = (ok1, s1)"
    by (cases "process_repo E url rc g r xs base lorry2 s")
  from process_repo_kinds [OF pr] obtain tr1 where
    t1: "trace s s1 tr1" and k1: "\<forall>e \<in> set tr1. runs repo_kind e"
    and c1: "count_runs is_clone tr1 = 1"
    by blast
  show ?case
  proof (cases ok1)
    case False
    with Cons.prems uc pr have "s' = s1" "\<not> ok" by simp_all
    with t1 k1 show ?thesis by blast
  next
    case True
    with Cons.prems uc pr
    have "process_mirroring_loop E cfg g r xs base lorry2 s1 = (ok, s')" by simp
    from Cons.IH [OF this] obtain tr2 where
      t2: "trace s1 s' tr2" and k2: "\<forall>e \<in> set tr2. runs repo_kind e"
      and c2: "ok \<longrightarrow> count_runs is_clone tr2 = length cfg"
      by blast
    from trace_trans [OF t1 t2] k1 k2 c1 c2 show ?thesis
      by (intro exI [of _ "tr1 @ tr2"]) auto
  qed
qed

lemma process_mirroring_loop_append:
  "process_mirroring_loop E pre g r xs base lorry2 s = (True, s1) \<Longrightarrow>
   process_mirroring_loop E (pre @ rest) g r xs base lorry2 s =
   process_mirroring_loop E rest g r xs base lorry2 s1"
proof (induction pre arbitrary: s)
  case Nil
  then show ?case by simp
next
  case (Cons uc pre)
  obtain url rc where uc: "uc = (url, rc)" by (cases uc)
  obtain ok1 s0 where pr: "process_repo E url rc g r xs base lorry2 s = (ok1, s0)"
    by (cases "process_repo E url rc g r xs base lorry2 s")
  from Cons.prems uc pr have ok1: ok1
    and l: "process_mirroring_loop E pre g r xs base lorry2 s0 = (True, s1)"
    by (auto split: if_splits)
  from Cons.IH [OF l] uc pr ok1 show ?case by simp
qed

lemma count_runs_disjoint:
  assumes "\<forall>e \<in> set tr. runs K e" and "\<And>a. K a \<Longrightarrow> \<not> K' a"
  shows "count_runs K' tr = 0"
proof (rule count_runs_none, rule ballI)
  fix e assume "e \<in> set tr"
  with assms(1) have "runs K e" by blast
  with assms(2) show "\<not> runs K' e" by (cases e) auto
qed

lemma count_runs_le:
  assumes "\<And>a. K a \<Longrightarrow> K' a"
  shows "count_runs K evs \<le> count_runs K' evs"
proof (induction evs)
  case Nil
  show ?case by simp
next
  case (Cons e evs)
  have "runs K e \<Longrightarrow> runs K' e" using assms by (cases e) auto
  with Cons show ?case by auto
qed

lemma digit_char_is_digit: "is_digit (digit_char n)"
proof -
  have "n mod 10 < length ''0123456789''" by simp
  then have "''0123456789'' ! (n mod 10) \<in> set ''0123456789''" by (rule nth_mem)
  then show ?thesis by (simp only: is_digit_def digit_char_def)
qed

lemma strftime_format: "length (strftime d) = 14 \<and> (\<forall>c \<in> set (strftime d). is_digit c)"
  by (simp add: strftime_def pad2_def pad4_def digit_char_is_digit)

lemma gate_counts [simp]:
  "\<not> is_create_branch (add_cmd E g r)" "\<not> is_create_branch (commit_cmd E)"
  "\<not> is_commit (create_branch_cmd E base s)" "\<not> is_commit (add_cmd E g r)"
  by (simp_all add: is_create_branch_def is_commit_def add_cmd_def commit_cmd_def
                    create_branch_cmd_def git_subcommand_def)

lemma pair_from_fst: "fst p = a \<Longrightarrow> p = (a, snd p)"
  by (cases p) simp

lemma succeeded_simps [simp]:
  "succeeded K []"
  "succeeded K (Exec a c r # evs) = ((K a \<longrightarrow> r = 0) \<and> succeeded K evs)"
  "succeeded K (Log l f x # evs) = succeeded K evs"
  "succeeded K (TmpCreate d # evs) = succeeded K evs"
  "succeeded K (TmpRemove d # evs) = succeeded K evs"
  "succeeded K (xs @ ys) = (succeeded K xs \<and> succeeded K ys)"
  by (simp_all add: succeeded_def)

lemma succeeded_exec_events: "succeeded K (exec_events evs) = succeeded K evs"
  by (induction evs) (auto simp: exec_events_def is_exec_def split: event.splits)

lemma trace_succeeded: "trace s s' tr \<Longrightarrow> succeeded K (events_since s s') = succeeded K tr"
  using trace_since [of s s' tr] succeeded_exec_events [of K "events_since s s'"] by simp

lemma succeeded_weaken:
  assumes "succeeded K evs" and "\<And>a. K' a \<Longrightarrow> K a"
  shows "succeeded K' evs"
  using assms by (auto simp: succeeded_def list_all_iff split: event.splits)

lemma failed_check_recorded:
  "length rcs = length elements \<Longrightarrow> failed_of elements rcs \<noteq> [] \<Longrightarrow>
   \<not> succeeded is_element_check (checks_of dest elements rcs)"
proof (induction elements arbitrary: rcs)
  case Nil
  then show ?case by (simp add: failed_of_def)
next
  case (Cons e elements)
  then obtain rc rcs' where rcs: "rcs = rc # rcs'" by (cases rcs) auto
  show ?case
  proof (cases "rc = 0")
    case True
    with Cons.prems rcs have "failed_of elements rcs' \<noteq> []" "length rcs' = length elements"
      by (simp_all add: failed_of_def)
    from Cons.IH [OF this(2,1)] rcs show ?thesis by (simp add: checks_of_def)
  next
    case False
    with rcs show ?thesis by (simp add: checks_of_def)
  qed
qed

lemma process_branch_run:
  assumes pb: "process_branch E url branch elements dest g r xs lorry2 s = (ok, s')"
  shows "\<exists>tr. trace s s' tr \<and> (\<forall>e \<in> set tr. runs branch_kind e) \<and>
              (succeeded branch_kind tr \<longrightarrow> ok)"
proof -
  let ?co = "Exec (git_command dest [''checkout'', branch]) None"
  let ?gen = "Exec (bst_to_lorry_command elements g r xs lorry2) (Some dest)"
  have ck: "\<forall>e \<in> set (checks_of dest elements rcs). runs branch_kind e" for rcs
    by (auto simp: checks_of_def branch_kind_def)
  have bk: "branch_kind (git_command dest [''checkout'', branch])"
    "branch_kind (bst_to_lorry_command elements g r xs lorry2)"
    by (simp_all add: branch_kind_def)
  from process_branch_cases [OF pb] obtain rcs rg where c:
    "(exit_code E (git_command dest [''checkout'', branch]) None s \<noteq> 0 \<and> \<not> ok \<and>
      trace s s' [?co (exit_code E (git_command dest [''checkout'', branch]) None s)])
     \<or> (length rcs = length elements \<and> failed_of elements rcs \<noteq> [] \<and> \<not> ok \<and>
        trace s s' (?co 0 # checks_of dest elements rcs))
     \<or> (length rcs = length elements \<and> failed_of elements rcs = [] \<and> ok = (rg = 0) \<and>
        trace s s' (?co 0 # checks_of dest elements rcs @ [?gen rg]))"
    by blast
  then consider
    (a) "exit_code E (git_command dest [''checkout'', branch]) None s \<noteq> 0"
        "trace s s' [?co (exit_code E (git_command dest [''checkout'', branch]) None s)]"
  | (b) "length rcs = length elements" "failed_of elements rcs \<noteq> []"
        "trace s s' (?co 0 # checks_of dest elements rcs)"
  | (c) "ok = (rg = 0)" "trace s s' (?co 0 # checks_of dest elements rcs @ [?gen rg])"
    by blast
  then show ?thesis
  proof cases
    case a
    show ?thesis
      by (rule exI, intro conjI, rule a(2)) (use a(1) bk in simp_all)
  next
    case b
    have "\<not> succeeded branch_kind (checks_of dest elements rcs)"
      using failed_check_recorded [OF b(1,2), of dest]
      by (auto dest: succeeded_weaken [where K' = is_element_check] simp: branch_kind_def)
    then show ?thesis
      by (intro exI [of _ "?co 0 # checks_of dest elements rcs"] conjI b(3)) (use ck bk in simp_all)
  next
    case c
    show ?thesis
      by (intro exI [of _ "?co 0 # checks_of dest elements rcs @ [?gen rg]"] conjI c(2))
         (use c(1) ck bk in simp_all)
  qed
qed

lemma process_repo_loop_run:
  "process_repo_loop E url rc dest g r xs lorry2 s = (ok, s') \<Longrightarrow>
   \<exists>tr. trace s s' tr \<and> (\<forall>e \<in> set tr. runs branch_kind e) \<and> (succeeded branch_kind tr \<longrightarrow> ok)"
proof (induction rc arbitrary: s)
  case Nil
  then have "s' = s" ok by simp_all
  then show ?case by (intro exI [of _ "[]"]) simp
next
  case (Cons bc rc)
  obtain branch els where bc: "bc = (branch, els)" by (cases bc)
  obtain ok1 s1 where pb: "process_branch E url branch els dest g r xs lorry2 s = (ok1, s1)"
    by (cases "process_branch E url branch els dest g r xs lorry2 s")
  from process_branch_run [OF pb] obtain tr1 where
    t1: "trace s s1 tr1" and k1: "\<forall>e \<in> set tr1. runs branch_kind e"
    and o1: "succeeded branch_kind tr1 \<longrightarrow> ok1"
    by blast
  show ?case
  proof (cases ok1)
    case False
    with Cons.prems bc pb have "s' = s1" by simp
    with t1 k1 o1 False show ?thesis by blast
  next
    case True
    with Cons.prems bc pb have "process_repo_loop E url rc dest g r xs lorry2 s1 = (ok, s')"
      by simp
    from Cons.IH [OF this] obtain tr2 where
      t2: "trace s1 s' tr2" and k2: "\<forall>e \<in> set tr2. runs branch_kind e"
      and o2: "succeeded branch_kind tr2 \<longrightarrow> ok"
      by blast
    from trace_trans [OF t1 t2] k1 k2 o2 show ?thesis
      by (intro exI [of _ "tr1 @ tr2"]) auto
  qed
qed

lemma process_repo_run:
  assumes pr: "process_repo E url rc g r xs base lorry2 s = (ok, s')"
  shows "\<exists>tr. trace s s' tr \<and> (\<forall>e \<in> set tr. runs repo_kind e) \<and> (succeeded repo_kind tr \<longrightarrow> ok)"
proof -
  let ?tmp = "tmpdir_of E s"
  let ?s1 = "emit (TmpCreate ?tmp) (after_mkdtemp E s)"
  let ?dest = "clone_dest_of E url s"
  let ?cc = "clone_cmd E url s"
  let ?r1 = "exit_code E ?cc None (after_mkdtemp E s)"
  let ?body = "process_repo_body E url rc g r xs base lorry2"
  have kc: "repo_kind ?cc" by (simp add: repo_kind_def clone_cmd_def)
  obtain res s2 where rg: "run_git E [''clone'', url, ?dest] None False
      (Some (''Failed to clone repository: '' @ url)) False ?s1 = (res, s2)"
    by (cases "run_git E [''clone'', url, ?dest] None False
      (Some (''Failed to clone repository: '' @ url)) False ?s1")
  have "trace ?s1 s2 [Exec ?cc None ?r1]" and isl: "(\<not> isl res) = (?r1 = 0)"
    using git_wrapper [OF rg] by (simp_all add: clone_cmd_def repo_of_def)
  then have "trace (after_mkdtemp E s) s2 [Exec ?cc None ?r1]"
    by (simp add: trace_emit_tmp(2))
  then have t1: "trace s s2 [Exec ?cc None ?r1]"
    unfolding after_mkdtemp_def by (rule trace_world_upd)
  show ?thesis
  proof (cases "?r1 = 0")
    case False
    with isl obtain e where res: "res = Inl e" by (cases res) auto
    from pr rg res have s': "s' = emit (TmpRemove ?tmp) s2"
      by (auto simp: process_repo_def clone_repo_def process_repo_body_def Let_def
                     tmpdir_of_def after_mkdtemp_def clone_dest_of_def
               split: prod.splits)
    from t1 s' have "trace s s' [Exec ?cc None ?r1]"
      by (simp add: trace_emit_tmp(1))
    then show ?thesis
      by (rule_tac x = "[Exec ?cc None ?r1]" in exI) (use False kc in simp)
  next
    case r1: True
    with isl obtain c where res: "res = Inr c" by (cases res) auto
    let ?s3 = "logging INFO ''Cloned %s to %s'' [LStr url, LStr ?dest] s2"
    obtain ok' s4 where body: "?body (True, Some ?dest) ?s3 = (ok', s4)"
      by (cases "?body (True, Some ?dest) ?s3")
    from pr rg res body have ok: "ok = ok'" and s': "s' = emit (TmpRemove ?tmp) s4"
      by (auto simp: process_repo_def clone_repo_def Let_def
                     tmpdir_of_def after_mkdtemp_def clone_dest_of_def
               split: prod.splits)
    obtain c0 s5 where cb: "checkout_branch E base None ?s3 = (c0, s5)"
      by (cases "checkout_branch E base None ?s3")
    let ?co = "git_command (getcwd E) [''checkout'', base]"
    let ?r2 = "exit_code E ?co None s2"
    have ko: "repo_kind ?co" by (simp add: repo_kind_def)
    have t2: "trace s2 s5 [Exec ?co None ?r2]" and c0: "c0 = (?r2 = 0)"
      using checkout_branch_trace [OF cb] by (simp_all add: repo_of_def trace_logging_pre)
    from trace_trans [OF t1 t2]
    have t12: "trace s s5 [Exec ?cc None ?r1, Exec ?co None ?r2]" by simp
    show ?thesis
    proof (cases "?r2 = 0")
      case False
      with c0 body cb have "s4 = s5"
        by (simp add: process_repo_body_def Let_def)
      with s' t12 have "trace s s' [Exec ?cc None ?r1, Exec ?co None ?r2]"
        by (simp add: trace_emit_tmp(1))
      then show ?thesis
        by (rule_tac x = "[Exec ?cc None ?r1, Exec ?co None ?r2]" in exI) (use False kc ko in simp)
    next
      case True
      with c0 body cb have "process_repo_loop E url rc ?dest g r xs lorry2 s5 = (ok', s4)"
        by (simp add: process_repo_body_def Let_def)
      from process_repo_loop_run [OF this] obtain rest where
        t3: "trace s5 s4 rest" and k: "\<forall>e \<in> set rest. runs branch_kind e"
        and o: "succeeded branch_kind rest \<longrightarrow> ok'"
        by blast
      have k': "\<forall>e \<in> set rest. runs repo_kind e"
      proof
        fix e assume "e \<in> set rest"
        with k have "runs branch_kind e" by blast
        then show "runs repo_kind e" by (cases e) (auto dest: branch_kind_repo_kind)
      qed
      have o': "succeeded repo_kind rest \<longrightarrow> ok"
        using o ok by (auto dest: succeeded_weaken [where K' = branch_kind] branch_kind_repo_kind)
      from trace_trans [OF t12 t3] s'
      have "trace s s' ([Exec ?cc None ?r1, Exec ?co None ?r2] @ rest)"
        by (simp add: trace_emit_tmp(1))
      then show ?thesis
        by (rule_tac x = "[Exec ?cc None ?r1, Exec ?co None ?r2] @ rest" in exI)
           (use kc ko k' o' in simp)
    qed
  qed
qed

lemma process_mirroring_loop_run:
  "process_mirroring_loop E cfg g r xs base lorry2 s = (ok, s') \<Longrightarrow>
   \<exists>tr. trace s s' tr \<and> (\<forall>e \<in> set tr. runs repo_kind e) \<and> (succeeded repo_kind tr \<longrightarrow> ok)"
proof (induction cfg arbitrary: s)
  case Nil
  then have "s' = s" ok by simp_all
  then show ?case by (intro exI [of _ "[]"]) simp
next
  case (Cons uc cfg)
  obtain url rc where uc: "uc = (url, rc)" by (cases uc)
  obtain ok1 s1 where pr: "process_repo E url rc g r xs base lorry2 s = (ok1, s1)"
    by (cases "process_repo E url rc g r xs base lorry2 s")
  from process_repo_run [OF pr] obtain tr1 where
    t1: "trace s s1 tr1" and k1: "\<forall>e \<in> set tr1. runs repo_kind e"
    and o1: "succeeded repo_kind tr1 \<longrightarrow> ok1"
    by blast
  show ?case
  proof (cases ok1)
    case False
    with Cons.prems uc pr have "s' = s1" by simp
    with t1 k1 o1 False show ?thesis by blast
  next
    case True
    with Cons.prems uc pr
    have "process_mirroring_loop E cfg g r xs base lorry2 s1 = (ok, s')" by simp
    from Cons.IH [OF this] obtain tr2 where
      t2: "trace s1 s' tr2" and k2: "\<forall>e \<in> set tr2. runs repo_kind e"
      and o2: "succeeded repo_kind tr2 \<longrightarrow> ok"
      by blast
    from trace_trans [OF t1 t2] k1 k2 o2 show ?thesis
      by (intro exI [of _ "tr1 @ tr2"]) auto
  qed
qed

lemma commit_changes_run:
  assumes cc: "commit_changes E g r base s = (res, s')"
  shows "\<exists>tr. trace s s' tr \<and> (\<forall>e \<in> set tr. runs mutates_target e) \<and>
              (succeeded mutates_target tr \<longrightarrow>
                 res = (True, Some (new_branch E base s)) \<and>
                 tr = [Exec (create_branch_cmd E base s) None 0, Exec (add_cmd E g r) None 0,
                       Exec (commit_cmd E) None 0])"
proof -
  have m: "mutates_target (create_branch_cmd E base s)" "mutates_target (add_cmd E g r)"
    "mutates_target (commit_cmd E)"
    by (simp_all add: mutates_target_def)
  from commit_changes_cases [OF cc] obtain r1 r2 r3 where
    "(r1 \<noteq> 0 \<and> trace s s' [Exec (create_branch_cmd E base s) None r1])
     \<or> (r2 \<noteq> 0 \<and>
        trace s s' [Exec (create_branch_cmd E base s) None 0, Exec (add_cmd E g r) None r2])
     \<or> (r3 \<noteq> 0 \<and>
        trace s s' [Exec (create_branch_cmd E base s) None 0, Exec (add_cmd E g r) None 0,
                    Exec (commit_cmd E) None r3])
     \<or> (res = (True, Some (new_branch E base s)) \<and>
        trace s s' [Exec (create_branch_cmd E base s) None 0, Exec (add_cmd E g r) None 0,
                    Exec (commit_cmd E) None 0])"
    by blast
  then show ?thesis
    by (elim disjE conjE) (rule exI, intro conjI, assumption, use m in simp_all)+
qed

lemma is_dirty_exact:
  assumes "is_dirty E None (Some dir) s = (d, s')"
  shows "d = reported_dirty E dir (world s)"
    and "world s' = after_status E dir (world s)"
    and "trace s s' [status_event E dir (world s)]"
  using assms
  by (auto simp: is_dirty_def run_git_def run_command_def Let_def truthy_def status_cmd_def
                 reported_dirty_def after_status_def status_event_def trace_def
           split: prod.splits sum.splits if_splits)

lemma tracked_dirty_both:
  assumes td: "tracked_dirty E g r s = (d, s2)"
  shows "d = (reported_dirty E r (world s) \<or>
              reported_dirty E g (after_status E r (world s)))
       \<and> trace s s2
           (if reported_dirty E r (world s) then [status_event E r (world s)]
            else [status_event E r (world s), status_event E g (after_status E r (world s))])
       \<and> world s2 =
           (if reported_dirty E r (world s) then after_status E r (world s)
            else after_status E g (after_status E r (world s)))"
proof -
  obtain d1 s1 where i1: "is_dirty E None (Some r) s = (d1, s1)"
    by (cases "is_dirty E None (Some r) s")
  note x1 = is_dirty_exact [OF i1]
  show ?thesis
  proof (cases d1)
    case True
    with td i1 have "d" "s2 = s1" by (simp_all add: tracked_dirty_def)
    with x1 True show ?thesis by simp
  next
    case False
    with td i1 have i2: "is_dirty E None (Some g) s1 = (d, s2)"
      by (simp add: tracked_dirty_def)
    note x2 = is_dirty_exact [OF i2]
    from trace_trans [OF x1(3) x2(3)] x1 x2 False show ?thesis by simp
  qed
qed

lemma tracked_dirty_exact:
  assumes td: "tracked_dirty E g r s = (d, s2)"
  shows "d = (reported_dirty E r (world s) \<or>
              reported_dirty E g (after_status E r (world s)))"
    and "trace s s2
           (if reported_dirty E r (world s) then [status_event E r (world s)]
            else [status_event E r (world s), status_event E g (after_status E r (world s))])"
    and "world s2 =
           (if reported_dirty E r (world s) then after_status E r (world s)
            else after_status E g (after_status E r (world s)))"
  using tracked_dirty_both [OF td] by simp_all

lemma status_event_kind [simp]: "runs is_status (status_event E dir w)"
  by (simp add: status_event_def status_cmd_def is_status_def git_subcommand_def)

lemma status_trace_kinds:
  "\<forall>e \<in> set (if reported_dirty E r w then [status_event E r w]
               else [status_event E r w, status_event E g (after_status E r w)]).
     runs is_status e"
  by simp

section \<open>C1: one commit on one new branch\<close>

text \<open>
  C1, as stated, needs only the branch checkouts, the element checks and the generator to
  succeed and a tracked directory to be dirty. In the run on the example configuration
  both checkouts, the element check and the generator run exit with status 0 and the
  directories are reported dirty, but the commit itself fails: the run reports failure
  and no commit exists.
\<close>

theorem process_mirroring_commit_can_fail:
  "succeeded is_checkout (events (snd (process_mirroring (sim_env is_commit '' M gits/x'')
        example_config ''gits'' ''files'' [] ''main'' False sim_start)))
   \<and> succeeded is_element_check (events (snd (process_mirroring (sim_env is_commit '' M gits/x'')
        example_config ''gits'' ''files'' [] ''main'' False sim_start)))
   \<and> succeeded is_generator (events (snd (process_mirroring (sim_env is_commit '' M gits/x'')
        example_config ''gits'' ''files'' [] ''main'' False sim_start)))
   \<and> count_runs is_checkout (events (snd (process_mirroring (sim_env is_commit '' M gits/x'')
        example_config ''gits'' ''files'' [] ''main'' False sim_start))) = 2
   \<and> count_runs is_element_check (events (snd (process_mirroring (sim_env is_commit '' M gits/x'')
        example_config ''gits'' ''files'' [] ''main'' False sim_start))) = 1
   \<and> count_runs is_generator (events (snd (process_mirroring (sim_env is_commit '' M gits/x'')
        example_config ''gits'' ''files'' [] ''main'' False sim_start))) = 1
   \<and> reported_dirty (sim_env is_commit '' M gits/x'') ''files''
        (world (snd (process_mirroring_loop (sim_env is_commit '' M gits/x'') example_config
                       ''gits'' ''files'' [] ''main'' False sim_start)))
   \<and> fst (process_mirroring (sim_env is_commit '' M gits/x'') example_config ''gits'' ''files''
            [] ''main'' False sim_start) = (False, None)
   \<and> sim_commits (world (snd (process_mirroring (sim_env is_commit '' M gits/x'')
        example_config ''gits'' ''files'' [] ''main'' False sim_start))) = []"
  by (simp add: run_defs reported_dirty_def status_cmd_def Let_def)

text \<open>
  C1 (amended): when every clone, every checkout (of the base branch and of each
  configured branch), every element check, every generator run, and the branch creation,
  the staging and the commit that the run issues exit with status 0, and after
  processing a tracked directory is reported dirty (its status query exits with a
  non-zero status or prints something other than white space), the run returns success
  with the branch name \<^verbatim>\<open>update-mirrors/<base-branch>/<timestamp>\<close>, the timestamp
  being the UTC clock reading printed as fourteen digits \<^verbatim>\<open>YYYYMMDDHHMMSS\<close>; the
  whole run creates exactly one branch, with
  \<^verbatim>\<open>git checkout -b <name> <base-branch>\<close>, and makes exactly one commit, after that
  branch was created.
\<close>

theorem process_mirroring_one_commit_one_branch:
  assumes "succeeded work_kind
             (events_since s
                (snd (process_mirroring E mirror_config git_dir raw_files_dir exclude_aliases
                        base_branch lorry2 s)))"
    and "reported_dirty E raw_files_dir
           (world (snd (process_mirroring_loop E mirror_config git_dir raw_files_dir
                          exclude_aliases base_branch lorry2 s)))
         \<or> reported_dirty E git_dir
             (after_status E raw_files_dir
                (world (snd (process_mirroring_loop E mirror_config git_dir raw_files_dir
                               exclude_aliases base_branch lorry2 s))))"
  shows "let s1 = snd (process_mirroring_loop E mirror_config git_dir raw_files_dir
                         exclude_aliases base_branch lorry2 s);
             s2 = snd (tracked_dirty E git_dir raw_files_dir s1);
             res = process_mirroring E mirror_config git_dir raw_files_dir exclude_aliases
                     base_branch lorry2 s;
             timestamp = strftime (clock E s2);
             name = ''update-mirrors/'' @ base_branch @ ''/'' @ timestamp
         in fst res = (True, Some name)
          \<and> (valid_datetime (clock E s2) \<longrightarrow>
               length timestamp = 14 \<and> (\<forall>c \<in> set timestamp. is_digit c))
          \<and> exec_events (events_since s2 (snd res)) =
               [Exec (git_command (getcwd E) [''checkout'', ''-b'', name, base_branch]) None 0,
                Exec (add_cmd E git_dir raw_files_dir) None 0,
                Exec (commit_cmd E) None 0]
          \<and> count_runs is_create_branch (events_since s (snd res)) = 1
          \<and> count_runs is_commit (events_since s (snd res)) = 1"
proof -
  let ?res = "process_mirroring E mirror_config git_dir raw_files_dir exclude_aliases
                base_branch lorry2 s"
  obtain ok s1 where loop: "process_mirroring_loop E mirror_config git_dir raw_files_dir
      exclude_aliases base_branch lorry2 s = (ok, s1)"
    by (cases "process_mirroring_loop E mirror_config git_dir raw_files_dir
      exclude_aliases base_branch lorry2 s")
  from process_mirroring_loop_run [OF loop] obtain tr1 where
    t1: "trace s s1 tr1" and k1: "\<forall>e \<in> set tr1. runs repo_kind e"
    and o1: "succeeded repo_kind tr1 \<longrightarrow> ok"
    by blast
  have ok: ok
  proof (rule ccontr)
    assume "\<not> ok"
    with loop have "?res = ((False, None), s1)" by (simp add: process_mirroring_def)
    with assms(1) have "succeeded work_kind (events_since s s1)" by simp
    then have "succeeded work_kind tr1" using trace_succeeded [OF t1] by simp
    then have "succeeded repo_kind tr1"
      by (rule succeeded_weaken) (simp add: work_kind_def)
    with o1 \<open>\<not> ok\<close> show False by simp
  qed
  obtain d s2 where td: "tracked_dirty E git_dir raw_files_dir s1 = (d, s2)"
    by (cases "tracked_dirty E git_dir raw_files_dir s1")
  from tracked_dirty_both [OF td] assms(2) loop have d: d
    and t2: "trace s1 s2
      (if reported_dirty E raw_files_dir (world s1) then [status_event E raw_files_dir (world s1)]
       else [status_event E raw_files_dir (world s1),
             status_event E git_dir (after_status E raw_files_dir (world s1))])"
    by simp_all
  let ?tr2 = "if reported_dirty E raw_files_dir (world s1)
      then [status_event E raw_files_dir (world s1)]
      else [status_event E raw_files_dir (world s1),
            status_event E git_dir (after_status E raw_files_dir (world s1))]"
  have k2: "\<forall>e \<in> set ?tr2. runs is_status e" by (rule status_trace_kinds)
  obtain cr s3 where cc: "commit_changes E git_dir raw_files_dir base_branch s2 = (cr, s3)"
    by (cases "commit_changes E git_dir raw_files_dir base_branch s2")
  from loop ok td d cc have res: "?res = (cr, s3)"
    by (simp add: process_mirroring_def)
  let ?gate = "[Exec (create_branch_cmd E base_branch s2) None 0,
                Exec (add_cmd E git_dir raw_files_dir) None 0,
                Exec (commit_cmd E) None 0]"
  from commit_changes_run [OF cc] obtain tr3 where
    t3: "trace s2 s3 tr3"
    and o3: "succeeded mutates_target tr3 \<longrightarrow>
               cr = (True, Some (new_branch E base_branch s2)) \<and> tr3 = ?gate"
    by blast
  note t = trace_trans [OF trace_trans [OF t1 t2] t3]
  from assms(1) res have "succeeded work_kind (events_since s s3)" by simp
  then have "succeeded work_kind (tr1 @ ?tr2 @ tr3)"
    using trace_succeeded [OF t, of work_kind] by simp
  then have "succeeded work_kind tr3" by simp
  then have "succeeded mutates_target tr3"
    by (rule succeeded_weaken) (simp add: work_kind_def)
  with o3 have cr: "cr = (True, Some (new_branch E base_branch s2))" and tr3: "tr3 = ?gate"
    by simp_all
  have cb: "\<not> is_create_branch a" and cm: "\<not> is_commit a" if "\<not> mutates_target a" for a
    using that by (simp_all add: mutates_target_def)
  have "count_runs is_create_branch tr1 = 0" "count_runs is_commit tr1 = 0"
    by (rule count_runs_disjoint [OF k1], rule cb cm, rule repo_kind_not_mutates, assumption)+
  moreover have "count_runs is_create_branch ?tr2 = 0" "count_runs is_commit ?tr2 = 0"
    by (rule count_runs_disjoint [OF k2], rule cb cm, rule status_not_mutates, assumption)+
  ultimately have counts: "count_runs is_create_branch (events_since s s3) = 1"
    "count_runs is_commit (events_since s s3) = 1"
    using trace_count [OF t, of is_create_branch] trace_count [OF t, of is_commit] tr3
    by simp_all
  have name: "new_branch E base_branch s2 =
              ''update-mirrors/'' @ base_branch @ ''/'' @ strftime (clock E s2)"
    by (simp add: new_branch_def branch_name_of_def)
  have gate: "exec_events (events_since s2 s3) =
      [Exec (git_command (getcwd E) [''checkout'', ''-b'',
               ''update-mirrors/'' @ base_branch @ ''/'' @ strftime (clock E s2), base_branch])
         None 0,
       Exec (add_cmd E git_dir raw_files_dir) None 0,
       Exec (commit_cmd E) None 0]"
    using trace_since [OF t3] tr3 by (simp add: create_branch_cmd_def name)
  from cr name gate counts strftime_format [of "clock E s2"] show ?thesis
    unfolding Let_def loop td res fst_conv snd_conv by simp
qed

text \<open>
  The amended C1 on the example configuration: every command of the run exits with
  status 0 and the raw-files directory is reported dirty.
\<close>

theorem process_mirroring_one_commit_one_branch_witness:
  "succeeded work_kind (events_since sim_start
        (snd (process_mirroring (sim_env no_failure '' M gits/x'') example_config ''gits''
                ''files'' [] ''main'' False sim_start)))
   \<and> reported_dirty (sim_env no_failure '' M gits/x'') ''files''
        (world (snd (process_mirroring_loop (sim_env no_failure '' M gits/x'') example_config
                       ''gits'' ''files'' [] ''main'' False sim_start)))
   \<and> valid_datetime (clock (sim_env no_failure '' M gits/x'')
        (snd (tracked_dirty (sim_env no_failure '' M gits/x'') ''gits'' ''files''
           (snd (process_mirroring_loop (sim_env no_failure '' M gits/x'') example_config
                   ''gits'' ''files'' [] ''main'' False sim_start)))))
   \<and> fst (process_mirroring (sim_env no_failure '' M gits/x'') example_config ''gits''
            ''files'' [] ''main'' False sim_start) =
       (True, Some ''update-mirrors/main/20240307090542'')
   \<and> count_runs is_create_branch (events_since sim_start
        (snd (process_mirroring (sim_env no_failure '' M gits/x'') example_config ''gits''
                ''files'' [] ''main'' False sim_start))) = 1
   \<and> count_runs is_commit (events_since sim_start
        (snd (process_mirroring (sim_env no_failure '' M gits/x'') example_config ''gits''
                ''files'' [] ''main'' False sim_start))) = 1"
proof -
  let ?E = "sim_env no_failure '' M gits/x''"
  let ?s1 = "snd (process_mirroring_loop ?E example_config ''gits'' ''files'' [] ''main'' False
                    sim_start)"
  let ?s2 = "snd (tracked_dirty ?E ''gits'' ''files'' ?s1)"
  let ?res = "process_mirroring ?E example_config ''gits'' ''files'' [] ''main'' False sim_start"
  have a: "succeeded work_kind (events_since sim_start (snd ?res))"
    by (simp add: run_defs events_since_def Let_def)
  have d: "reported_dirty ?E ''files'' w" for w
    by (simp add: reported_dirty_def status_cmd_def run_defs)
  have ts: "strftime (clock ?E ?s2) = ''20240307090542''"
    by (simp add: clock_def run_defs)
  have v: "valid_datetime (clock ?E ?s2)"
    by (simp add: clock_def sim_env_def valid_datetime_def)
  from process_mirroring_one_commit_one_branch [OF a disjI1, OF d]
  have "fst ?res = (True, Some (''update-mirrors/'' @ ''main'' @ ''/'' @ strftime (clock ?E ?s2)))
        \<and> count_runs is_create_branch (events_since sim_start (snd ?res)) = 1
        \<and> count_runs is_commit (events_since sim_start (snd ?res)) = 1"
    unfolding Let_def by blast
  then have "fst ?res = (True, Some ''update-mirrors/main/20240307090542'')
        \<and> count_runs is_create_branch (events_since sim_start (snd ?res)) = 1
        \<and> count_runs is_commit (events_since sim_start (snd ?res)) = 1"
    unfolding ts by simp
  with a d v show ?thesis by (intro conjI) simp_all
qed

section \<open>C2: the commit gate is reached only when a directory is reported dirty\<close>

text \<open>
  C2, as stated, has the commit gate entered only if a tracked directory carries
  uncommitted changes. \<open>is_dirty\<close> answers dirty also when the status query fails. On a
  repository whose status text is empty the run with working status queries returns
  success with no branch; on the same repository with failing status queries it
  creates the automation branch and commits.
\<close>

theorem process_mirroring_gate_on_failed_status:
  "fst (process_mirroring (sim_env no_failure []) example_config ''gits'' ''files'' [] ''main''
          False sim_start) = (True, None)
   \<and> fst (exec (sim_env is_status []) (status_cmd (sim_env is_status []) ''files'') None
           (world sim_start)) = (1, [], ''fatal: failed'')
   \<and> fst (process_mirroring (sim_env is_status []) example_config ''gits'' ''files'' [] ''main''
            False sim_start) = (True, Some ''update-mirrors/main/20240307090542'')
   \<and> sim_branches (world (snd (process_mirroring (sim_env is_status []) example_config ''gits''
        ''files'' [] ''main'' False sim_start))) = [''update-mirrors/main/20240307090542'', ''main'']
   \<and> count_runs is_commit (events (snd (process_mirroring (sim_env is_status []) example_config
        ''gits'' ''files'' [] ''main'' False sim_start))) = 1"
  by (simp add: run_defs status_cmd_def Let_def)

text \<open>
  C2 (amended): after every repository has been processed successfully,
  \<open>process_mirroring\<close> runs \<^verbatim>\<open>git status --porcelain -- <dir>\<close> on the raw-files
  directory and, only when that one is reported clean, on the git directory, and nothing
  else; a directory is reported dirty when its status query exits with a non-zero status
  or prints something other than white space. If neither is reported dirty it returns
  success with no branch name, having created no branch, staged nothing and made no
  commit; if one is reported dirty its result is that of \<open>commit_changes\<close>. So a
  branch is created only if one of the two directories is reported dirty.
\<close>

theorem process_mirroring_gate_on_reported_dirty:
  assumes "process_mirroring_loop E mirror_config git_dir raw_files_dir exclude_aliases
             base_branch lorry2 s = (True, s1)"
  shows "let d1 = reported_dirty E raw_files_dir (world s1);
             w1 = after_status E raw_files_dir (world s1);
             d2 = reported_dirty E git_dir w1;
             s2 = snd (tracked_dirty E git_dir raw_files_dir s1);
             res = process_mirroring E mirror_config git_dir raw_files_dir exclude_aliases
                     base_branch lorry2 s
         in exec_events (events_since s1 s2) =
              (if d1 then [status_event E raw_files_dir (world s1)]
               else [status_event E raw_files_dir (world s1), status_event E git_dir w1])
          \<and> world s2 = (if d1 then w1 else after_status E git_dir w1)
          \<and> (\<not> d1 \<and> \<not> d2 \<longrightarrow>
               fst res = (True, None) \<and> count_runs mutates_target (events_since s (snd res)) = 0)
          \<and> (d1 \<or> d2 \<longrightarrow> res = commit_changes E git_dir raw_files_dir base_branch s2)
          \<and> (count_runs is_create_branch (events_since s (snd res)) \<noteq> 0 \<longrightarrow> d1 \<or> d2)"
proof -
  let ?d1 = "reported_dirty E raw_files_dir (world s1)"
  let ?w1 = "after_status E raw_files_dir (world s1)"
  let ?d2 = "reported_dirty E git_dir ?w1"
  let ?tr2 = "if ?d1 then [status_event E raw_files_dir (world s1)]
              else [status_event E raw_files_dir (world s1), status_event E git_dir ?w1]"
  obtain d s2 where td: "tracked_dirty E git_dir raw_files_dir s1 = (d, s2)"
    by (cases "tracked_dirty E git_dir raw_files_dir s1")
  from tracked_dirty_exact [OF td] have d: "d = (?d1 \<or> ?d2)" and t2: "trace s1 s2 ?tr2"
    and w: "world s2 = (if ?d1 then ?w1 else after_status E git_dir ?w1)"
    by simp_all
  have k2: "\<forall>e \<in> set ?tr2. runs is_status e" by (rule status_trace_kinds)
  let ?res = "process_mirroring E mirror_config git_dir raw_files_dir exclude_aliases
                base_branch lorry2 s"
  from process_mirroring_loop_kinds [OF assms] obtain tr1 where
    t1: "trace s s1 tr1" and k1: "\<forall>e \<in> set tr1. runs repo_kind e"
    by blast
  have a: "exec_events (events_since s1 s2) = ?tr2"
    using t2 by (rule trace_since)
  have clean: "fst ?res = (True, None) \<and> count_runs mutates_target (events_since s (snd ?res)) = 0"
    if "\<not> d"
  proof -
    from that assms td
    have res: "?res = ((True, None), logging WARNING ''Nothing to commit'' [] s2)"
      by (simp add: process_mirroring_def)
    have t: "trace s (logging WARNING ''Nothing to commit'' [] s2) (tr1 @ ?tr2)"
      using trace_trans [OF t1 t2] by (rule trace_logging)
    have "count_runs mutates_target tr1 = 0"
      by (rule count_runs_disjoint [OF k1]) (rule repo_kind_not_mutates)
    moreover have "count_runs mutates_target ?tr2 = 0"
      by (rule count_runs_disjoint [OF k2]) (rule status_not_mutates)
    ultimately show ?thesis
      using trace_count [OF t, of mutates_target] res by simp
  qed
  have dirty: "?res = commit_changes E git_dir raw_files_dir base_branch s2" if d
    using that assms td by (simp add: process_mirroring_def)
  have only_if: d if "count_runs is_create_branch (events_since s (snd ?res)) \<noteq> 0"
  proof (rule ccontr)
    assume "\<not> d"
    from clean [OF this]
    have "count_runs mutates_target (events_since s (snd ?res)) = 0" by simp
    moreover have "count_runs is_create_branch (events_since s (snd ?res))
        \<le> count_runs mutates_target (events_since s (snd ?res))"
      by (rule count_runs_le) (simp add: mutates_target_def)
    ultimately show False using that by simp
  qed
  from a w clean dirty only_if show ?thesis
    unfolding Let_def td snd_conv d by blast
qed

text \<open>The amended C2 on the example configuration with both directories reported clean.\<close>

theorem process_mirroring_gate_on_reported_dirty_witness:
  "fst (process_mirroring_loop (sim_env no_failure []) example_config ''gits'' ''files'' []
          ''main'' False sim_start)
   \<and> \<not> reported_dirty (sim_env no_failure []) ''files''
         (world (snd (process_mirroring_loop (sim_env no_failure []) example_config ''gits''
                        ''files'' [] ''main'' False sim_start)))
   \<and> \<not> reported_dirty (sim_env no_failure []) ''gits''
         (after_status (sim_env no_failure []) ''files''
            (world (snd (process_mirroring_loop (sim_env no_failure []) example_config ''gits''
                           ''files'' [] ''main'' False sim_start))))
   \<and> fst (process_mirroring (sim_env no_failure []) example_config ''gits'' ''files'' []
            ''main'' False sim_start) = (True, None)
   \<and> count_runs mutates_target
        (events_since sim_start
           (snd (process_mirroring (sim_env no_failure []) example_config ''gits'' ''files''
                   [] ''main'' False sim_start))) = 0"
proof -
  let ?E = "sim_env no_failure []"
  let ?s1 = "snd (process_mirroring_loop ?E example_config ''gits'' ''files'' [] ''main'' False
                    sim_start)"
  have h: "fst (process_mirroring_loop ?E example_config ''gits'' ''files'' [] ''main'' False
                  sim_start)"
    by (simp add: run_defs Let_def)
  have e: "process_mirroring_loop ?E example_config ''gits'' ''files'' [] ''main'' False
             sim_start = (True, ?s1)"
    by (rule pair_from_fst) (use h in simp)
  have c1: "\<not> reported_dirty ?E ''files'' w" for w
    by (simp add: reported_dirty_def status_cmd_def run_defs)
  have c2: "\<not> reported_dirty ?E ''gits'' w" for w
    by (simp add: reported_dirty_def status_cmd_def run_defs)
  from process_mirroring_gate_on_reported_dirty [OF e] c1 c2
  have "fst (process_mirroring ?E example_config ''gits'' ''files'' [] ''main'' False sim_start)
          = (True, None)
        \<and> count_runs mutates_target
            (events_since sim_start
               (snd (process_mirroring ?E example_config ''gits'' ''files'' [] ''main'' False
                       sim_start))) = 0"
    unfolding Let_def by blast
  with h c1 c2 show ?thesis by (intro conjI) simp_all
qed

section \<open>C3: abort at the first failing repository\<close>

text \<open>
  C3: when the repositories before some position are processed successfully and the
  repository at that position fails, \<open>process_mirroring\<close> returns failure with no branch
  name in the very state in which that repository's processing ended, whatever follows it
  in the configuration: one clone was run per repository up to and including the failing
  one, and no branch was created, nothing staged and no commit made.
\<close>

theorem process_mirroring_aborts_at_first_failure:
  assumes "process_mirroring_loop E pre git_dir raw_files_dir exclude_aliases base_branch
             lorry2 s = (True, s1)"
    and "process_repo E repo_url repo_config git_dir raw_files_dir exclude_aliases base_branch
           lorry2 s1 = (False, s2)"
  shows "process_mirroring E (pre @ (repo_url, repo_config) # post) git_dir raw_files_dir
           exclude_aliases base_branch lorry2 s = ((False, None), s2)
       \<and> count_runs is_clone (events_since s s2) = length pre + 1
       \<and> count_runs mutates_target (events_since s s2) = 0"
proof -
  from process_mirroring_loop_append [OF assms(1), of "(repo_url, repo_config) # post"] assms(2)
  have "process_mirroring_loop E (pre @ (repo_url, repo_config) # post) git_dir raw_files_dir
          exclude_aliases base_branch lorry2 s = (False, s2)"
    by simp
  then have res: "process_mirroring E (pre @ (repo_url, repo_config) # post) git_dir
      raw_files_dir exclude_aliases base_branch lorry2 s = ((False, None), s2)"
    by (simp add: process_mirroring_def)
  from process_mirroring_loop_kinds [OF assms(1)] obtain tr1 where
    t1: "trace s s1 tr1" and k1: "\<forall>e \<in> set tr1. runs repo_kind e"
    and c1: "count_runs is_clone tr1 = length pre"
    by blast
  from process_repo_kinds [OF assms(2)] obtain tr2 where
    t2: "trace s1 s2 tr2" and k2: "\<forall>e \<in> set tr2. runs repo_kind e"
    and c2: "count_runs is_clone tr2 = 1"
    by blast
  note t = trace_trans [OF t1 t2]
  have "count_runs is_clone (events_since s s2) = length pre + 1"
    using trace_count [OF t, of is_clone] c1 c2 by simp
  moreover have "count_runs mutates_target (tr1 @ tr2) = 0"
    by (rule count_runs_disjoint [of _ repo_kind]) (use k1 k2 in \<open>auto dest: repo_kind_not_mutates\<close>)
  then have "count_runs mutates_target (events_since s s2) = 0"
    using trace_count [OF t, of mutates_target] by simp
  ultimately show ?thesis using res by simp
qed


text \<open>
  C3 on three repositories where the clone of the second fails: the third is never
  cloned.
\<close>

theorem process_mirroring_aborts_at_first_failure_witness:
  "fst (process_mirroring_loop (sim_env (\<lambda>a. a = git_command ''/work/mirroring-config''
            [''clone'', ''https://example/b.git'', ''/tmp/tmpk3v9/b'']) [])
          example_config ''gits'' ''files'' [] ''main'' False sim_start)
   \<and> \<not> fst (process_repo (sim_env (\<lambda>a. a = git_command ''/work/mirroring-config''
            [''clone'', ''https://example/b.git'', ''/tmp/tmpk3v9/b'']) [])
          ''https://example/b.git'' [(''main'', [''elemB''])] ''gits'' ''files'' [] ''main'' False
          (snd (process_mirroring_loop (sim_env (\<lambda>a. a = git_command ''/work/mirroring-config''
            [''clone'', ''https://example/b.git'', ''/tmp/tmpk3v9/b'']) [])
          example_config ''gits'' ''files'' [] ''main'' False sim_start)))
   \<and> fst (process_mirroring (sim_env (\<lambda>a. a = git_command ''/work/mirroring-config''
            [''clone'', ''https://example/b.git'', ''/tmp/tmpk3v9/b'']) [])
          (example_config @ (''https://example/b.git'', [(''main'', [''elemB''])]) #
             [(''https://example/c.git'', [(''main'', [''elemC''])])])
          ''gits'' ''files'' [] ''main'' False sim_start) = (False, None)
   \<and> count_runs is_clone (events (snd (process_mirroring (sim_env (\<lambda>a. a = git_command
            ''/work/mirroring-config''
            [''clone'', ''https://example/b.git'', ''/tmp/tmpk3v9/b'']) [])
          (example_config @ (''https://example/b.git'', [(''main'', [''elemB''])]) #
             [(''https://example/c.git'', [(''main'', [''elemC''])])])
          ''gits'' ''files'' [] ''main'' False sim_start))) = 2"
proof -
  let ?E = "sim_env (\<lambda>a. a = git_command ''/work/mirroring-config''
            [''clone'', ''https://example/b.git'', ''/tmp/tmpk3v9/b'']) []"
  let ?post = "[(''https://example/c.git'', [(''main'', [''elemC''])])]"
  let ?s1 = "snd (process_mirroring_loop ?E example_config ''gits'' ''files'' [] ''main'' False
                    sim_start)"
  let ?s2 = "snd (process_repo ?E ''https://example/b.git'' [(''main'', [''elemB''])] ''gits''
                    ''files'' [] ''main'' False ?s1)"
  have h1: "fst (process_mirroring_loop ?E example_config ''gits'' ''files'' [] ''main'' False
                   sim_start)"
    by (simp add: run_defs Let_def)
  have h2: "\<not> fst (process_repo ?E ''https://example/b.git'' [(''main'', [''elemB''])] ''gits''
                    ''files'' [] ''main'' False ?s1)"
    by (simp add: run_defs Let_def)
  have e1: "process_mirroring_loop ?E example_config ''gits'' ''files'' [] ''main'' False
              sim_start = (True, ?s1)"
    by (rule pair_from_fst) (use h1 in simp)
  have e2: "process_repo ?E ''https://example/b.git'' [(''main'', [''elemB''])] ''gits''
              ''files'' [] ''main'' False ?s1 = (False, ?s2)"
    by (rule pair_from_fst) (use h2 in simp)
  note c = process_mirroring_aborts_at_first_failure [OF e1 e2, of ?post]
  from c have r: "process_mirroring ?E
      (example_config @ (''https://example/b.git'', [(''main'', [''elemB''])]) # ?post)
      ''gits'' ''files'' [] ''main'' False sim_start = ((False, None), ?s2)"
    by (rule conjunct1)
  from c have "count_runs is_clone (events_since sim_start ?s2) = 2"
    by (simp add: example_config_def)
  then have n: "count_runs is_clone (events ?s2) = 2"
    by (simp add: events_since_def sim_start_def)
  show ?thesis
    unfolding r fst_conv snd_conv using h1 h2 n by (intro conjI) simp_all
qed

section \<open>C4: the commit gate\<close>

text \<open>
  C4, as stated, asks that a failing \<open>commit_changes\<close> leaves no new branch and no staged
  change behind. In the simulated repository, with a commit that fails, the function
  returns failure while the new branch exists and both directories are staged.
\<close>

theorem commit_changes_not_atomic:
  "fst (commit_changes (sim_env is_commit []) ''gits'' ''files'' ''main'' sim_start) = (False, None)
   \<and> sim_branches (world (snd (commit_changes (sim_env is_commit []) ''gits'' ''files'' ''main''
        sim_start))) = [''update-mirrors/main/20240307090542'', ''main'']
   \<and> sim_staged (world (snd (commit_changes (sim_env is_commit []) ''gits'' ''files'' ''main''
        sim_start))) = [''gits'', ''files'']
   \<and> sim_branches (world sim_start) = [''main'']
   \<and> sim_staged (world sim_start) = []"
  by code_simp

text \<open>
  C4 (amended): \<open>commit_changes\<close> runs the branch creation, then the staging of exactly
  the two tracked directories, then the commit, and stops at the first of them that
  fails. It returns success with the new branch name exactly when all three succeed;
  otherwise it returns failure with no branch name and runs no further command, so
  nothing undoes a branch already created or changes already staged.
\<close>

theorem commit_changes_stops_at_first_failure:
  "\<exists>r1 r2 r3.
     let res = fst (commit_changes E g r base s);
         cmds = exec_events (events_since s (snd (commit_changes E g r base s)));
         create = Exec (create_branch_cmd E base s) None;
         add = Exec (add_cmd E g r) None;
         commit = Exec (commit_cmd E) None
     in (r1 \<noteq> 0 \<and> res = (False, None) \<and> cmds = [create r1])
      \<or> (r2 \<noteq> 0 \<and> res = (False, None) \<and> cmds = [create 0, add r2])
      \<or> (r3 \<noteq> 0 \<and> res = (False, None) \<and> cmds = [create 0, add 0, commit r3])
      \<or> (res = (True, Some (new_branch E base s)) \<and> cmds = [create 0, add 0, commit 0])"
proof -
  obtain res s' where cc: "commit_changes E g r base s = (res, s')"
    by (cases "commit_changes E g r base s")
  from commit_changes_cases [OF cc] obtain r1 r2 r3 where
    "(r1 \<noteq> 0 \<and> res = (False, None) \<and>
            trace s s' [Exec (create_branch_cmd E base s) None r1])
         \<or> (r2 \<noteq> 0 \<and> res = (False, None) \<and>
            trace s s' [Exec (create_branch_cmd E base s) None 0, Exec (add_cmd E g r) None r2])
         \<or> (r3 \<noteq> 0 \<and> res = (False, None) \<and>
            trace s s' [Exec (create_branch_cmd E base s) None 0, Exec (add_cmd E g r) None 0,
                        Exec (commit_cmd E) None r3])
         \<or> (res = (True, Some (new_branch E base s)) \<and>
            trace s s' [Exec (create_branch_cmd E base s) None 0, Exec (add_cmd E g r) None 0,
                        Exec (commit_cmd E) None 0])"
    by blast
  then have "(r1 \<noteq> 0 \<and> res = (False, None) \<and>
            exec_events (events_since s s') = [Exec (create_branch_cmd E base s) None r1])
         \<or> (r2 \<noteq> 0 \<and> res = (False, None) \<and>
            exec_events (events_since s s') = [Exec (create_branch_cmd E base s) None 0, Exec (add_cmd E g r) None r2])
         \<or> (r3 \<noteq> 0 \<and> res = (False, None) \<and>
            exec_events (events_since s s') = [Exec (create_branch_cmd E base s) None 0, Exec (add_cmd E g r) None 0,
                        Exec (commit_cmd E) None r3])
         \<or> (res = (True, Some (new_branch E base s)) \<and>
            exec_events (events_since s s') = [Exec (create_branch_cmd E base s) None 0, Exec (add_cmd E g r) None 0,
                        Exec (commit_cmd E) None 0])"
    by (auto dest: trace_since)
  then show ?thesis
    unfolding Let_def cc fst_conv snd_conv by blast
qed

text \<open>The amended C4 at a run where staging fails.\<close>

theorem commit_changes_stops_at_first_failure_witness:
  "fst (commit_changes (sim_env is_add []) ''gits'' ''files'' ''main'' sim_start) = (False, None)
   \<and> exec_events (events_since sim_start
        (snd (commit_changes (sim_env is_add []) ''gits'' ''files'' ''main'' sim_start))) =
      [Exec (create_branch_cmd (sim_env is_add []) ''main'' sim_start) None 0,
       Exec (add_cmd (sim_env is_add []) ''gits'' ''files'') None 1]"
proof -
  have ev: "exec_events (events_since sim_start
        (snd (commit_changes (sim_env is_add []) ''gits'' ''files'' ''main'' sim_start))) =
      [Exec (create_branch_cmd (sim_env is_add []) ''main'' sim_start) None 0,
       Exec (add_cmd (sim_env is_add []) ''gits'' ''files'') None 1]"
    by code_simp
  from commit_changes_stops_at_first_failure
    [of "sim_env is_add []" "''gits''" "''files''" "''main''" sim_start]
  show ?thesis
    unfolding Let_def ev by auto
qed

section \<open>C5: the base branch checkout\<close>

text \<open>
  C5, as stated, has the base branch checked out in the clone. \<open>process_repo\<close> calls
  \<^verbatim>\<open>checkout_branch(base_branch)\<close> without a path, so git runs in the current
  directory: in the simulated run the base branch is checked out once in
  \<^verbatim>\<open>/work/mirroring-config\<close> and never in the clone \<^verbatim>\<open>/tmp/tmpk3v9/repo\<close>.
\<close>

theorem process_repo_base_checkout_not_in_clone:
  "clone_dest_of (sim_env no_failure []) ''https://example/repo.git'' sim_start =
     ''/tmp/tmpk3v9/repo''
   \<and> count_runs ((=) (git_command ''/work/mirroring-config'' [''checkout'', ''main'']))
        (events (snd (process_repo (sim_env no_failure []) ''https://example/repo.git''
           [(''release'', [''elemA''])] ''gits'' ''files'' [] ''main'' False sim_start))) = 1
   \<and> count_runs ((=) (git_command ''/tmp/tmpk3v9/repo'' [''checkout'', ''main'']))
        (events (snd (process_repo (sim_env no_failure []) ''https://example/repo.git''
           [(''release'', [''elemA''])] ''gits'' ''files'' [] ''main'' False sim_start))) = 0"
  by (simp add: run_defs clone_dest_of_def tmpdir_of_def Let_def)

text \<open>
  C5 (amended): after a successful clone, \<open>process_repo\<close> checks out the run's base
  branch in the process's current directory (the target repository), not in the clone,
  before any branch of the repository's mapping is processed; if that checkout fails it
  fails the repository without processing any branch. Every later command of the
  repository runs in the clone.
\<close>

theorem process_repo_base_checkout:
  assumes "exit_code E (clone_cmd E repo_url s) None (after_mkdtemp E s) = 0"
  shows "\<exists>r2 rest.
     (let ok = fst (process_repo E repo_url repo_config git_dir raw_files_dir exclude_aliases
                      base_branch lorry2 s);
          s' = snd (process_repo E repo_url repo_config git_dir raw_files_dir exclude_aliases
                      base_branch lorry2 s);
          cmds = exec_events (events_since s s')
      in cmds = Exec (clone_cmd E repo_url s) None 0 #
                Exec (git_command (getcwd E) [''checkout'', base_branch]) None r2 # rest
       \<and> (r2 \<noteq> 0 \<longrightarrow> rest = [] \<and> \<not> ok)
       \<and> (\<forall>e \<in> set rest. in_clone (clone_dest_of E repo_url s) e \<and> runs branch_kind e))"
proof -
  obtain ok s' where pr: "process_repo E repo_url repo_config git_dir raw_files_dir
      exclude_aliases base_branch lorry2 s = (ok, s')"
    by (cases "process_repo E repo_url repo_config git_dir raw_files_dir
      exclude_aliases base_branch lorry2 s")
  from process_repo_cases [OF pr] assms obtain r2 rest where
    t: "trace s s' (Exec (clone_cmd E repo_url s) None 0 #
                    Exec (git_command (getcwd E) [''checkout'', base_branch]) None r2 # rest)"
    and f: "r2 \<noteq> 0 \<longrightarrow> rest = [] \<and> \<not> ok"
    and k: "\<forall>e \<in> set rest. in_clone (clone_dest_of E repo_url s) e \<and> runs branch_kind e"
    by auto
  from trace_since [OF t] f k show ?thesis
    unfolding Let_def pr fst_conv snd_conv
    by (intro exI [of _ r2] exI [of _ rest]) simp
qed

text \<open>The amended C5 on a repository whose base branch checkout fails.\<close>

theorem process_repo_base_checkout_witness:
  "exit_code (sim_env (\<lambda>a. a = git_command ''/work/mirroring-config'' [''checkout'', ''main'']) [])
     (clone_cmd (sim_env (\<lambda>a. a = git_command ''/work/mirroring-config'' [''checkout'', ''main'']) [])
        ''https://example/repo.git'' sim_start) None
     (after_mkdtemp (sim_env (\<lambda>a. a = git_command ''/work/mirroring-config'' [''checkout'', ''main'']) [])
        sim_start) = 0
   \<and> exec_events (events_since sim_start
        (snd (process_repo (sim_env (\<lambda>a. a = git_command ''/work/mirroring-config'' [''checkout'', ''main'']) [])
           ''https://example/repo.git'' [(''release'', [''elemA''])] ''gits'' ''files'' [] ''main''
           False sim_start))) =
      [Exec (git_command ''/work/mirroring-config''
               [''clone'', ''https://example/repo.git'', ''/tmp/tmpk3v9/repo'']) None 0,
       Exec (git_command ''/work/mirroring-config'' [''checkout'', ''main'']) None 1]
   \<and> \<not> fst (process_repo (sim_env (\<lambda>a. a = git_command ''/work/mirroring-config'' [''checkout'', ''main'']) [])
           ''https://example/repo.git'' [(''release'', [''elemA''])] ''gits'' ''files'' [] ''main''
           False sim_start)"
proof -
  let ?E = "sim_env (\<lambda>a. a = git_command ''/work/mirroring-config'' [''checkout'', ''main'']) []"
  have h: "exit_code ?E (clone_cmd ?E ''https://example/repo.git'' sim_start) None
             (after_mkdtemp ?E sim_start) = 0"
    by (simp add: run_defs exit_code_def clone_cmd_def after_mkdtemp_def clone_dest_of_def
                  tmpdir_of_def)
  have ev: "exec_events (events_since sim_start
        (snd (process_repo ?E ''https://example/repo.git'' [(''release'', [''elemA''])] ''gits''
           ''files'' [] ''main'' False sim_start))) =
      [Exec (git_command ''/work/mirroring-config''
               [''clone'', ''https://example/repo.git'', ''/tmp/tmpk3v9/repo'']) None 0,
       Exec (git_command ''/work/mirroring-config'' [''checkout'', ''main'']) None 1]"
    by (simp add: run_defs events_since_def Let_def)
  from process_repo_base_checkout [OF h, of "[(''release'', [''elemA''])]" "''gits''" "''files''"
      "[]" "''main''" False]
  obtain r2 rest where
    c: "exec_events (events_since sim_start
        (snd (process_repo ?E ''https://example/repo.git'' [(''release'', [''elemA''])] ''gits''
           ''files'' [] ''main'' False sim_start))) =
        Exec (clone_cmd ?E ''https://example/repo.git'' sim_start) None 0 #
        Exec (git_command (getcwd ?E) [''checkout'', ''main'']) None r2 # rest"
    and f: "r2 \<noteq> 0 \<longrightarrow> rest = [] \<and>
        \<not> fst (process_repo ?E ''https://example/repo.git'' [(''release'', [''elemA''])] ''gits''
           ''files'' [] ''main'' False sim_start)"
    unfolding Let_def by blast
  from c [unfolded ev] have "r2 = 1" by simp
  with f have "\<not> fst (process_repo ?E ''https://example/repo.git'' [(''release'', [''elemA''])] ''gits''
           ''files'' [] ''main'' False sim_start)"
    by simp
  with h ev show ?thesis by (intro conjI) assumption+
qed

section \<open>C6: the branch level\<close>

text \<open>
  C6, as stated, holds for every branch and element list. \<open>process_branch\<close> first checks
  the branch out in the clone and returns failure at once when that fails: then no
  element is checked and, although no element is missing, the generator is not run.
\<close>

theorem process_branch_checkout_guard:
  "fst (missing_elements (sim_env is_checkout []) [''elemA''] ''/tmp/tmpk3v9/repo'' sim_start) = []
   \<and> fst (process_branch (sim_env is_checkout []) ''https://example/repo.git'' ''release''
            [''elemA''] ''/tmp/tmpk3v9/repo'' ''gits'' ''files'' [] False sim_start) = False
   \<and> count_runs is_element_check
        (events (snd (process_branch (sim_env is_checkout []) ''https://example/repo.git''
            ''release'' [''elemA''] ''/tmp/tmpk3v9/repo'' ''gits'' ''files'' [] False sim_start))) = 0
   \<and> count_runs is_generator
        (events (snd (process_branch (sim_env is_checkout []) ''https://example/repo.git''
            ''release'' [''elemA''] ''/tmp/tmpk3v9/repo'' ''gits'' ''files'' [] False sim_start))) = 0"
  by code_simp

text \<open>
  C6 (amended): when the checkout of the branch in the clone succeeds, \<open>process_branch\<close>
  checks every element of the list once, in order, and the missing elements are all
  those whose check failed. If any is missing it logs them all in one error and returns
  failure, having run no generator; if none is missing it runs the generator exactly
  once, after the checks, over the full element list, and returns whether it succeeded.
\<close>

theorem process_branch_all_or_nothing:
  assumes "exit_code E (git_command clone_dest [''checkout'', branch]) None s = 0"
  shows "\<exists>rcs rg. length rcs = length elements \<and>
     (let missing = failed_of elements rcs;
          ok = fst (process_branch E repo_url branch elements clone_dest git_dir raw_files_dir
                      exclude_aliases lorry2 s);
          s' = snd (process_branch E repo_url branch elements clone_dest git_dir raw_files_dir
                      exclude_aliases lorry2 s);
          cmds = exec_events (events_since s s');
          checkout = Exec (git_command clone_dest [''checkout'', branch]) None 0;
          checks = checks_of clone_dest elements rcs;
          generate = Exec (bst_to_lorry_command elements git_dir raw_files_dir exclude_aliases
                             lorry2) (Some clone_dest) rg
      in (missing \<noteq> [] \<longrightarrow>
            \<not> ok \<and> cmds = checkout # checks \<and> count_runs is_generator cmds = 0 \<and>
            last (events s') =
              Log ERROR ''Required elements not found in branch %s of repo %s: %s''
                [LStr branch, LStr repo_url, LList missing])
       \<and> (missing = [] \<longrightarrow>
            cmds = checkout # checks @ [generate] \<and> count_runs is_generator cmds = 1 \<and>
            ok = (rg = 0)))"
proof -
  obtain ok s' where pb: "process_branch E repo_url branch elements clone_dest git_dir
      raw_files_dir exclude_aliases lorry2 s = (ok, s')"
    by (cases "process_branch E repo_url branch elements clone_dest git_dir
      raw_files_dir exclude_aliases lorry2 s")
  let ?co = "Exec (git_command clone_dest [''checkout'', branch]) None 0"
  let ?gen = "\<lambda>rg. Exec (bst_to_lorry_command elements git_dir raw_files_dir exclude_aliases
                             lorry2) (Some clone_dest) rg"
  from process_branch_cases [OF pb] assms obtain rcs rg where
    len: "length rcs = length elements" and
    c: "(failed_of elements rcs \<noteq> [] \<and> \<not> ok \<and>
         trace s s' (?co # checks_of clone_dest elements rcs) \<and>
         last (events s') =
              Log ERROR ''Required elements not found in branch %s of repo %s: %s''
                [LStr branch, LStr repo_url, LList (failed_of elements rcs)])
      \<or> (failed_of elements rcs = [] \<and> ok = (rg = 0) \<and>
         trace s s' (?co # checks_of clone_dest elements rcs @ [?gen rg]))"
    by auto
  have "(failed_of elements rcs \<noteq> [] \<longrightarrow>
            \<not> ok \<and> exec_events (events_since s s') = ?co # checks_of clone_dest elements rcs \<and>
            count_runs is_generator (exec_events (events_since s s')) = 0 \<and>
            last (events s') =
              Log ERROR ''Required elements not found in branch %s of repo %s: %s''
                [LStr branch, LStr repo_url, LList (failed_of elements rcs)])
       \<and> (failed_of elements rcs = [] \<longrightarrow>
            exec_events (events_since s s') = ?co # checks_of clone_dest elements rcs @ [?gen rg] \<and>
            count_runs is_generator (exec_events (events_since s s')) = 1 \<and>
            ok = (rg = 0))"
    using c by (auto dest!: trace_since)
  with len show ?thesis
    unfolding Let_def pb fst_conv snd_conv by blast
qed


text \<open>The amended C6 on a branch where the second of two elements is missing.\<close>

theorem process_branch_all_or_nothing_witness:
  "exit_code (sim_env (\<lambda>a. a = element_check_cmd ''elemB'') [])
     (git_command ''/tmp/tmpk3v9/repo'' [''checkout'', ''release'']) None sim_start = 0
   \<and> (\<exists>rcs rg. length rcs = length [''elemA'', ''elemB''] \<and>
     (let missing = failed_of [''elemA'', ''elemB''] rcs;
          ok = fst (process_branch (sim_env (\<lambda>a. a = element_check_cmd ''elemB'') [])
                      ''https://example/repo.git'' ''release'' [''elemA'', ''elemB'']
                      ''/tmp/tmpk3v9/repo'' ''gits'' ''files'' [] False sim_start);
          s' = snd (process_branch (sim_env (\<lambda>a. a = element_check_cmd ''elemB'') [])
                      ''https://example/repo.git'' ''release'' [''elemA'', ''elemB'']
                      ''/tmp/tmpk3v9/repo'' ''gits'' ''files'' [] False sim_start);
          cmds = exec_events (events_since sim_start s');
          checkout = Exec (git_command ''/tmp/tmpk3v9/repo'' [''checkout'', ''release'']) None 0;
          checks = checks_of ''/tmp/tmpk3v9/repo'' [''elemA'', ''elemB''] rcs;
          generate = Exec (bst_to_lorry_command [''elemA'', ''elemB''] ''gits'' ''files'' []
                             False) (Some ''/tmp/tmpk3v9/repo'') rg
      in (missing \<noteq> [] \<longrightarrow>
            \<not> ok \<and> cmds = checkout # checks \<and> count_runs is_generator cmds = 0 \<and>
            last (events s') =
              Log ERROR ''Required elements not found in branch %s of repo %s: %s''
                [LStr ''release'', LStr ''https://example/repo.git'', LList missing])
       \<and> (missing = [] \<longrightarrow>
            cmds = checkout # checks @ [generate] \<and> count_runs is_generator cmds = 1 \<and>
            ok = (rg = 0))))
   \<and> last (events (snd (process_branch (sim_env (\<lambda>a. a = element_check_cmd ''elemB'') [])
                      ''https://example/repo.git'' ''release'' [''elemA'', ''elemB'']
                      ''/tmp/tmpk3v9/repo'' ''gits'' ''files'' [] False sim_start))) =
       Log ERROR ''Required elements not found in branch %s of repo %s: %s''
         [LStr ''release'', LStr ''https://example/repo.git'', LList [''elemB'']]"
proof -
  have h: "exit_code (sim_env (\<lambda>a. a = element_check_cmd ''elemB'') [])
     (git_command ''/tmp/tmpk3v9/repo'' [''checkout'', ''release'']) None sim_start = 0"
    by code_simp
  have e: "last (events (snd (process_branch (sim_env (\<lambda>a. a = element_check_cmd ''elemB'') [])
                      ''https://example/repo.git'' ''release'' [''elemA'', ''elemB'']
                      ''/tmp/tmpk3v9/repo'' ''gits'' ''files'' [] False sim_start))) =
       Log ERROR ''Required elements not found in branch %s of repo %s: %s''
         [LStr ''release'', LStr ''https://example/repo.git'', LList [''elemB'']]"
    by code_simp
  from h e process_branch_all_or_nothing [OF h, of "[''elemA'', ''elemB'']"
      "''https://example/repo.git''" "''gits''" "''files''" "[]" False]
  show ?thesis by (intro conjI) assumption+
qed

section \<open>C7: the generator's argument list\<close>

text \<open>
  C7, as stated, has no format flag under the default format. The default of
  \<^verbatim>\<open>lorry2\<close> is false, and then the argument list carries \<^verbatim>\<open>--refspecs\<close>.
\<close>

theorem run_bst_to_lorry_default_has_flag:
  "''--refspecs'' \<in> set (bst_to_lorry_command [''elemA''] ''gits'' ''files''
      exclude_alias_default lorry2_default)"
  by (simp add: bst_to_lorry_command_def exclude_alias_default_def lorry2_default_def)

text \<open>
  C7 (amended): the argument list is \<^verbatim>\<open>bst-to-lorry\<close>, the elements, the two
  output directories, the format flag, and one \<^verbatim>\<open>--exclude-alias\<close> pair per excluded
  alias. The format flag \<^verbatim>\<open>--refspecs\<close> is present exactly when \<^verbatim>\<open>lorry2\<close> is
  not requested, which is the default; requesting \<^verbatim>\<open>lorry2\<close> adds no flag. (The
  membership is stated for inputs that do not themselves contain the flag's text.)
\<close>

theorem run_bst_to_lorry_format_flag:
  assumes "''--refspecs'' \<notin> set elements \<union> {g, r} \<union> set xs"
  shows "bst_to_lorry_command elements g r xs lorry2 =
           ''bst-to-lorry'' # elements @ [''--git-directory'', g, ''--raw-files-directory'', r] @
           (if lorry2 then [] else [''--refspecs'']) @
           concat (map (\<lambda>alias. [''--exclude-alias'', alias]) xs)
         \<and> (''--refspecs'' \<in> set (bst_to_lorry_command elements g r xs lorry2)) = (\<not> lorry2)"
  using assms by (auto simp: bst_to_lorry_command_shape)

text \<open>The amended C7 with \<^verbatim>\<open>lorry2\<close> requested.\<close>

theorem run_bst_to_lorry_format_flag_witness:
  "bst_to_lorry_command [''elemA''] ''gits'' ''files'' [''fdsdk_git''] True =
     [''bst-to-lorry'', ''elemA'', ''--git-directory'', ''gits'', ''--raw-files-directory'',
      ''files'', ''--exclude-alias'', ''fdsdk_git'']
   \<and> ''--refspecs'' \<notin> set (bst_to_lorry_command [''elemA''] ''gits'' ''files'' [''fdsdk_git''] True)"
  using run_bst_to_lorry_format_flag [of "[''elemA'']" "''gits''" "''files''" "[''fdsdk_git'']" True]
  by simp

section \<open>C8: the clone's directory name\<close>

text \<open>
  C8: the clone directory is named after the URL's last segment with the \<^verbatim>\<open>.git\<close>
  suffix stripped, other occurrences of \<^verbatim>\<open>.git\<close> left alone. The code calls
  \<^verbatim>\<open>replace\<close>, which removes every occurrence: for a repository named
  \<^verbatim>\<open>my.gitbook.git\<close> the directory is \<^verbatim>\<open>mybook\<close>, not \<^verbatim>\<open>my.gitbook\<close>.
\<close>

theorem clone_repo_name_inner_git:
  "repo_name ''https://gitlab.com/org/my.gitbook.git'' = ''mybook''"
  by (simp add: repo_name_def)

section \<open>C9: branch cleanup\<close>

text \<open>
  C9: the branches that \<open>cleanup_branches\<close> deletes one by one are the branches matching
  the automation pattern minus the source branches of the open merge requests; so a
  matching branch that is the source of an open merge request is never among them.
\<close>

theorem cleanup_branches_spares_open_sources:
  "{b. BranchDelete b \<in> set (fst (cleanup_branches p))} =
     {b \<in> set (branches p). branch_regex b} -
     {source_branch mr | mr. mr \<in> set (mergerequests p) \<and> mr_state mr = ''opened''}
   \<and> (\<forall>mr \<in> set (mergerequests p).
        mr_state mr = ''opened'' \<and> branch_regex (source_branch mr) \<longrightarrow>
        BranchDelete (source_branch mr) \<notin> set (fst (cleanup_branches p)))"
  by (auto simp: cleanup_branches_def branches_list_def mergerequests_list_def Let_def)

text \<open>C9 at a project with one open and one merged automation branch.\<close>

theorem cleanup_branches_spares_open_sources_witness:
  "BranchDelete ''update-mirrors/main/20240307090542'' \<notin> set (fst (cleanup_branches example_project))
   \<and> fst (cleanup_branches example_project) =
       [DeleteMergedBranches, BranchDelete ''update-mirrors/main/20240101000000'']"
proof -
  have m: "\<lparr>mr_state = ''opened'', source_branch = ''update-mirrors/main/20240307090542''\<rparr>
             \<in> set (mergerequests example_project)"
    by (simp add: example_project_def)
  have r: "branch_regex ''update-mirrors/main/20240307090542''"
    by (simp add: branch_regex_def is_digit_def)
  have "BranchDelete ''update-mirrors/main/20240307090542'' \<notin> set (fst (cleanup_branches example_project))"
    using cleanup_branches_spares_open_sources [of example_project] m r by force
  moreover have "fst (cleanup_branches example_project) =
       [DeleteMergedBranches, BranchDelete ''update-mirrors/main/20240101000000'']"
    by code_simp
  ultimately show ?thesis by simp
qed

section \<open>C10: the empty configuration\<close>

text \<open>
  C10, as stated, has the empty configuration create a branch and commit whenever a
  tracked directory is dirty. \<open>commit_changes\<close> can fail: with the branch creation
  failing, the run on the empty configuration reports failure and leaves no new branch
  and no commit.
\<close>

theorem process_mirroring_empty_config_gate_can_fail:
  "fst (tracked_dirty (sim_env is_create_branch '' M files/x'') ''gits'' ''files'' sim_start)
   \<and> fst (process_mirroring (sim_env is_create_branch '' M files/x'') [] ''gits'' ''files'' []
            ''main'' False sim_start) = (False, None)
   \<and> sim_branches (world (snd (process_mirroring (sim_env is_create_branch '' M files/x'') []
        ''gits'' ''files'' [] ''main'' False sim_start))) = [''main'']
   \<and> sim_commits (world (snd (process_mirroring (sim_env is_create_branch '' M files/x'') []
        ''gits'' ''files'' [] ''main'' False sim_start))) = []"
  by (simp add: run_defs Let_def)

text \<open>
  C10 (amended): for the empty configuration \<open>process_mirroring\<close> runs no clone, no
  checkout, no element check and no generator. It runs
  \<^verbatim>\<open>git status --porcelain -- <dir>\<close> on the raw-files directory and, only when that
  one is reported clean, on the git directory; a directory is reported dirty when its
  status query exits with a non-zero status or prints something other than white space.
  If neither is reported dirty it returns success with no branch, having created no
  branch, staged nothing and made no commit. If one is reported dirty its result is that
  of \<open>commit_changes\<close>; when the branch creation, the staging and the commit of this run
  exit with status 0, that result is success with the new branch name, after exactly
  these three commands.
\<close>

theorem process_mirroring_empty_config:
  "let d1 = reported_dirty E raw_files_dir (world s);
       w1 = after_status E raw_files_dir (world s);
       d2 = reported_dirty E git_dir w1;
       s2 = snd (tracked_dirty E git_dir raw_files_dir s);
       res = process_mirroring E [] git_dir raw_files_dir exclude_aliases base_branch lorry2 s
   in exec_events (events_since s s2) =
        (if d1 then [status_event E raw_files_dir (world s)]
         else [status_event E raw_files_dir (world s), status_event E git_dir w1])
    \<and> world s2 = (if d1 then w1 else after_status E git_dir w1)
    \<and> count_runs repo_kind (events_since s (snd res)) = 0
    \<and> (\<not> d1 \<and> \<not> d2 \<longrightarrow>
         fst res = (True, None) \<and> count_runs mutates_target (events_since s (snd res)) = 0)
    \<and> (d1 \<or> d2 \<longrightarrow>
         res = commit_changes E git_dir raw_files_dir base_branch s2 \<and>
         (succeeded mutates_target (events_since s2 (snd res)) \<longrightarrow>
            fst res = (True, Some (new_branch E base_branch s2)) \<and>
            exec_events (events_since s2 (snd res)) =
              [Exec (create_branch_cmd E base_branch s2) None 0,
               Exec (add_cmd E git_dir raw_files_dir) None 0,
               Exec (commit_cmd E) None 0]))"
proof -
  let ?d1 = "reported_dirty E raw_files_dir (world s)"
  let ?w1 = "after_status E raw_files_dir (world s)"
  let ?d2 = "reported_dirty E git_dir ?w1"
  let ?tr = "if ?d1 then [status_event E raw_files_dir (world s)]
             else [status_event E raw_files_dir (world s), status_event E git_dir ?w1]"
  obtain d s2 where td: "tracked_dirty E git_dir raw_files_dir s = (d, s2)"
    by (cases "tracked_dirty E git_dir raw_files_dir s")
  from tracked_dirty_exact [OF td] have d: "d = (?d1 \<or> ?d2)" and t: "trace s s2 ?tr"
    and w: "world s2 = (if ?d1 then ?w1 else after_status E git_dir ?w1)"
    by simp_all
  have k: "\<forall>e \<in> set ?tr. runs is_status e" by (rule status_trace_kinds)
  let ?res = "process_mirroring E [] git_dir raw_files_dir exclude_aliases base_branch lorry2 s"
  have a: "exec_events (events_since s s2) = ?tr"
    using t by (rule trace_since)
  have r0: "count_runs repo_kind ?tr = 0"
    by (rule count_runs_disjoint [OF k]) (rule status_not_repo_kind)
  have m0: "count_runs mutates_target ?tr = 0"
    by (rule count_runs_disjoint [OF k]) (rule status_not_mutates)
  show ?thesis
  proof (cases d)
    case False
    with td have res: "?res = ((True, None), logging WARNING ''Nothing to commit'' [] s2)"
      by (simp add: process_mirroring_def)
    have t': "trace s (logging WARNING ''Nothing to commit'' [] s2) ?tr"
      using t by (rule trace_logging)
    have "count_runs repo_kind (events_since s (snd ?res)) = 0"
      "count_runs mutates_target (events_since s (snd ?res)) = 0"
      using trace_count [OF t', of repo_kind] trace_count [OF t', of mutates_target] r0 m0 res
      by simp_all
    with a w res False d show ?thesis
      unfolding Let_def td snd_conv by simp
  next
    case True
    with td have res: "?res = commit_changes E git_dir raw_files_dir base_branch s2"
      by (simp add: process_mirroring_def)
    obtain cr s3 where cc: "commit_changes E git_dir raw_files_dir base_branch s2 = (cr, s3)"
      by (cases "commit_changes E git_dir raw_files_dir base_branch s2")
    from commit_changes_run [OF cc] obtain tr3 where
      t3: "trace s2 s3 tr3" and k3: "\<forall>e \<in> set tr3. runs mutates_target e"
      and o3: "succeeded mutates_target tr3 \<longrightarrow>
                 cr = (True, Some (new_branch E base_branch s2)) \<and>
                 tr3 = [Exec (create_branch_cmd E base_branch s2) None 0,
                        Exec (add_cmd E git_dir raw_files_dir) None 0,
                        Exec (commit_cmd E) None 0]"
      by blast
    have "count_runs repo_kind tr3 = 0"
      by (rule count_runs_disjoint [OF k3]) (rule mutates_not_repo_kind)
    with trace_count [OF trace_trans [OF t t3], of repo_kind] r0
    have c: "count_runs repo_kind (events_since s s3) = 0" by simp
    have ok: "cr = (True, Some (new_branch E base_branch s2)) \<and>
              exec_events (events_since s2 s3) =
                [Exec (create_branch_cmd E base_branch s2) None 0,
                 Exec (add_cmd E git_dir raw_files_dir) None 0,
                 Exec (commit_cmd E) None 0]"
      if "succeeded mutates_target (events_since s2 s3)"
      using that o3 trace_succeeded [OF t3, of mutates_target] trace_since [OF t3] by simp
    from True d have dd: "?d1 \<or> ?d2" by simp
    from a w c ok dd show ?thesis
      unfolding Let_def td res cc fst_conv snd_conv by blast
  qed
qed

text \<open>
  The amended C10 with the raw-files directory reported dirty and every git command of
  the run succeeding: one status query, then the three commands of the commit gate.
\<close>

theorem process_mirroring_empty_config_witness:
  "reported_dirty (sim_env no_failure '' M files/x'') ''files'' (world sim_start)
   \<and> succeeded mutates_target
        (events_since (snd (tracked_dirty (sim_env no_failure '' M files/x'') ''gits'' ''files''
                              sim_start))
           (snd (process_mirroring (sim_env no_failure '' M files/x'') [] ''gits'' ''files'' []
                   ''main'' False sim_start)))
   \<and> exec_events (events_since sim_start
        (snd (tracked_dirty (sim_env no_failure '' M files/x'') ''gits'' ''files'' sim_start))) =
       [status_event (sim_env no_failure '' M files/x'') ''files'' (world sim_start)]
   \<and> fst (process_mirroring (sim_env no_failure '' M files/x'') [] ''gits'' ''files'' []
            ''main'' False sim_start) = (True, Some ''update-mirrors/main/20240307090542'')
   \<and> count_runs repo_kind (events_since sim_start
        (snd (process_mirroring (sim_env no_failure '' M files/x'') [] ''gits'' ''files'' []
                ''main'' False sim_start))) = 0"
proof -
  let ?E = "sim_env no_failure '' M files/x''"
  let ?res = "process_mirroring ?E [] ''gits'' ''files'' [] ''main'' False sim_start"
  let ?s2 = "snd (tracked_dirty ?E ''gits'' ''files'' sim_start)"
  have d: "reported_dirty ?E ''files'' (world sim_start)"
    by (simp add: reported_dirty_def status_cmd_def run_defs)
  have ok: "succeeded mutates_target (events_since ?s2 (snd ?res))"
    by (simp add: run_defs events_since_def Let_def)
  have n: "new_branch ?E ''main'' ?s2 = ''update-mirrors/main/20240307090542''"
    by (simp add: new_branch_def clock_def run_defs)
  from process_mirroring_empty_config [of ?E "''files''" sim_start "''gits''" "[]" "''main''" False]
    d ok
  have "exec_events (events_since sim_start ?s2) = [status_event ?E ''files'' (world sim_start)]
        \<and> fst ?res = (True, Some (new_branch ?E ''main'' ?s2))
        \<and> count_runs repo_kind (events_since sim_start (snd ?res)) = 0"
    unfolding Let_def by (simp only: if_True) blast
  with d ok n show ?thesis by (intro conjI) simp_all
qed

end
